theory Spec2Isabelle
  imports Main
begin

unbundle bit_operations_syntax

section \<open>Python values\<close>

text \<open>
  The JavaScript error capture script is dynamically typed: the fields of an error
  (file name, line, column, kind) are whatever the reporting channel delivered. The
  scalar values that reach the pipeline are modelled by \<open>pyval\<close>. A Python \<open>str\<close> is a
  \<open>string\<close>, each character standing for the code point of its number; strings with
  code points from 256 on are outside the model.
\<close>

datatype pyval = PNone | PBool bool | PInt int | PStr string

datatype py_error = TypeError | AttributeError | OSError | ValueError

text \<open>Truth value testing, as \<open>if x\<close> and \<open>x or y\<close> do it.\<close>

fun truthy :: "pyval \<Rightarrow> bool" where
  "truthy PNone = False"
| "truthy (PBool b) = b"
| "truthy (PInt i) = (i \<noteq> 0)"
| "truthy (PStr s) = (s \<noteq> [])"

function dec_digits :: "int \<Rightarrow> string" where
  "dec_digits n = (if n < 10 then [char_of (48 + n)]
                   else dec_digits (n div 10) @ [char_of (48 + n mod 10)])"
  by pat_completeness auto
termination
  by (relation "measure nat") auto

declare dec_digits.simps [simp del]

text \<open>The built-in \<open>str()\<close>.\<close>

fun py_str :: "pyval \<Rightarrow> string" where
  "py_str PNone = ''None''"
| "py_str (PBool b) = (if b then ''True'' else ''False'')"
| "py_str (PInt i) = (if i < 0 then CHR ''-'' # dec_digits (- i) else dec_digits i)"
| "py_str (PStr s) = s"

text \<open>The numeric reading of a value: \<open>bool\<close> is a subclass of \<open>int\<close>.\<close>

fun py_num :: "pyval \<Rightarrow> int option" where
  "py_num (PBool b) = Some (if b then 1 else 0)"
| "py_num (PInt i) = Some i"
| "py_num v = None"

text \<open>The operator \<open>==\<close>: numbers compare by value, everything else by type and content.\<close>

definition py_eq :: "pyval \<Rightarrow> pyval \<Rightarrow> bool" where
  "py_eq a b = (case (py_num a, py_num b) of
                  (Some x, Some y) \<Rightarrow> x = y
                | (None, None) \<Rightarrow> a = b
                | _ \<Rightarrow> False)"

text \<open>
  A \<open>dict\<close> with string keys, in insertion order. \<open>dict_set\<close> is \<open>d[k] = v\<close>: an existing
  key keeps its place, a new one goes to the end.
\<close>

type_synonym pydict = "(string \<times> pyval) list"

fun dict_set :: "string \<Rightarrow> pyval \<Rightarrow> pydict \<Rightarrow> pydict" where
  "dict_set k v [] = [(k, v)]"
| "dict_set k v (p # ps) = (if fst p = k then (k, v) # ps else p # dict_set k v ps)"

definition dict_get :: "pydict \<Rightarrow> string \<Rightarrow> pyval \<Rightarrow> pyval" where
  "dict_get d k dflt = (case map_of d k of None \<Rightarrow> dflt | Some v \<Rightarrow> v)"

definition dict_update :: "pydict \<Rightarrow> pydict \<Rightarrow> pydict" where
  "dict_update d e = foldl (\<lambda>acc kv. dict_set (fst kv) (snd kv) acc) d e"

section \<open>The digest of \<open>hashlib.md5\<close>\<close>

text \<open>
  \<open>hashlib.md5(b).hexdigest()\<close> is the MD5 message digest of RFC 1321, printed as 32
  lower-case hexadecimal digits. Words are integers below \<open>2 ^ 32\<close>, with the
  wrap-around written out.
\<close>

definition w32 :: "int \<Rightarrow> int" where
  "w32 x = x mod 4294967296"

definition rotl32 :: "int \<Rightarrow> nat \<Rightarrow> int" where
  "rotl32 x s = w32 (x * 2 ^ s) OR (x div 2 ^ (32 - s))"

definition md5_K :: "int list" where
  "md5_K = [0xd76aa478, 0xe8c7b756, 0x242070db, 0xc1bdceee, 0xf57c0faf, 0x4787c62a,
            0xa8304613, 0xfd469501, 0x698098d8, 0x8b44f7af, 0xffff5bb1, 0x895cd7be,
            0x6b901122, 0xfd987193, 0xa679438e, 0x49b40821, 0xf61e2562, 0xc040b340,
            0x265e5a51, 0xe9b6c7aa, 0xd62f105d, 0x02441453, 0xd8a1e681, 0xe7d3fbc8,
            0x21e1cde6, 0xc33707d6, 0xf4d50d87, 0x455a14ed, 0xa9e3e905, 0xfcefa3f8,
            0x676f02d9, 0x8d2a4c8a, 0xfffa3942, 0x8771f681, 0x6d9d6122, 0xfde5380c,
            0xa4beea44, 0x4bdecfa9, 0xf6bb4b60, 0xbebfbc70, 0x289b7ec6, 0xeaa127fa,
            0xd4ef3085, 0x04881d05, 0xd9d4d039, 0xe6db99e5, 0x1fa27cf8, 0xc4ac5665,
            0xf4292244, 0x432aff97, 0xab9423a7, 0xfc93a039, 0x655b59c3, 0x8f0ccc92,
            0xffeff47d, 0x85845dd1, 0x6fa87e4f, 0xfe2ce6e0, 0xa3014314, 0x4e0811a1,
            0xf7537e82, 0xbd3af235, 0x2ad7d2bb, 0xeb86d391]"

definition md5_S :: "nat list" where
  "md5_S = [7, 12, 17, 22, 7, 12, 17, 22, 7, 12, 17, 22, 7, 12, 17, 22,
            5, 9, 14, 20, 5, 9, 14, 20, 5, 9, 14, 20, 5, 9, 14, 20,
            4, 11, 16, 23, 4, 11, 16, 23, 4, 11, 16, 23, 4, 11, 16, 23,
            6, 10, 15, 21, 6, 10, 15, 21, 6, 10, 15, 21, 6, 10, 15, 21]"

fun le_bytes :: "nat \<Rightarrow> int \<Rightarrow> int list" where
  "le_bytes 0 x = []"
| "le_bytes (Suc n) x = (x mod 256) # le_bytes n (x div 256)"

fun le_word :: "int list \<Rightarrow> int" where
  "le_word [] = 0"
| "le_word (b # bs) = b + 256 * le_word bs"

definition md5_pad :: "int list \<Rightarrow> int list" where
  "md5_pad bs = bs @ [128] @ replicate ((55 + 64 - length bs mod 64) mod 64) 0
                  @ le_bytes 8 (8 * int (length bs))"

fun chunks :: "nat \<Rightarrow> nat \<Rightarrow> 'a list \<Rightarrow> 'a list list" where
  "chunks 0 n xs = []"
| "chunks (Suc k) n xs = take n xs # chunks k n (drop n xs)"

definition md5_round ::
  "int list \<Rightarrow> int \<times> int \<times> int \<times> int \<Rightarrow> nat \<Rightarrow> int \<times> int \<times> int \<times> int" where
  "md5_round M st i = (case st of (a, b, c, d) \<Rightarrow>
     let nb = b XOR 4294967295; nd = d XOR 4294967295;
         f = (if i < 16 then (b AND c) OR (nb AND d)
              else if i < 32 then (d AND b) OR (nd AND c)
              else if i < 48 then b XOR c XOR d
              else c XOR (b OR nd));
         g = (if i < 16 then i
              else if i < 32 then (5 * i + 1) mod 16
              else if i < 48 then (3 * i + 5) mod 16
              else (7 * i) mod 16);
         f' = w32 (f + a + md5_K ! i + M ! g)
     in (d, w32 (b + rotl32 f' (md5_S ! i)), b, c))"

definition md5_block ::
  "int \<times> int \<times> int \<times> int \<Rightarrow> int list \<Rightarrow> int \<times> int \<times> int \<times> int" where
  "md5_block st blk = (case st of (a0, b0, c0, d0) \<Rightarrow>
     case foldl (md5_round (map le_word (chunks 16 4 blk))) st [0..<64] of (a, b, c, d) \<Rightarrow>
       (w32 (a0 + a), w32 (b0 + b), w32 (c0 + c), w32 (d0 + d)))"

definition hex_byte :: "int \<Rightarrow> string" where
  "hex_byte b = [''0123456789abcdef'' ! nat (b div 16), ''0123456789abcdef'' ! nat (b mod 16)]"

definition md5_hexdigest :: "int list \<Rightarrow> string" where
  "md5_hexdigest bs =
     (let p = md5_pad bs in
      case foldl md5_block (0x67452301, 0xefcdab89, 0x98badcfe, 0x10325476)
             (chunks (length p div 64) 64 p) of
        (a, b, c, d) \<Rightarrow>
          concat (map hex_byte (le_bytes 4 a @ le_bytes 4 b @ le_bytes 4 c @ le_bytes 4 d)))"

text \<open>The method \<open>s.encode('utf-8')\<close>, for code points below 256.\<close>

definition utf8_encode :: "string \<Rightarrow> int list" where
  "utf8_encode s =
     concat (map (\<lambda>c. let n = (of_char c :: int)
                      in if n < 128 then [n] else [192 + n div 64, 128 + n mod 64]) s)"

section \<open>Error signatures\<close>

text \<open>The method \<open>sep.join(parts)\<close>.\<close>

fun join :: "string \<Rightarrow> string list \<Rightarrow> string" where
  "join sep [] = []"
| "join sep [x] = x"
| "join sep (x # y # ys) = x @ sep @ join sep (y # ys)"

text \<open>
  \<open>generate_error_signature\<close>. The message is a \<open>str\<close> at every call. \<open>filename or ""\<close>
  keeps a truthy file name as it is, and \<open>join\<close> raises \<open>TypeError\<close> on a part that is
  not a \<open>str\<close>. The parameter \<open>error_type\<close> is not read.
\<close>

definition signature_parts :: "string \<Rightarrow> pyval \<Rightarrow> pyval \<Rightarrow> pyval \<Rightarrow> pyval list" where
  "signature_parts error_message filename lineno colno =
     [PStr (if error_message \<noteq> [] then take 200 error_message else ''''),
      (if truthy filename then filename else PStr ''''),
      PStr (if truthy lineno then py_str lineno else ''''),
      PStr (if truthy colno then py_str colno else '''')]"

fun str_parts :: "pyval list \<Rightarrow> py_error + string list" where
  "str_parts [] = Inr []"
| "str_parts (PStr s # vs) = (case str_parts vs of Inl e \<Rightarrow> Inl e | Inr ss \<Rightarrow> Inr (s # ss))"
| "str_parts (v # vs) = Inl TypeError"

definition generate_error_signature ::
  "pyval \<Rightarrow> string \<Rightarrow> pyval \<Rightarrow> pyval \<Rightarrow> pyval \<Rightarrow> py_error + string" where
  "generate_error_signature error_type error_message filename lineno colno =
     (case str_parts (signature_parts error_message filename lineno colno) of
        Inl e \<Rightarrow> Inl e
      | Inr parts \<Rightarrow> Inr (md5_hexdigest (utf8_encode (join ''|'' parts))))"

section \<open>The ledger file and the session state\<close>

text \<open>
  \<open>error.json\<close> holds \<open>{"session_info": {...}, "errors": [...]}\<close>. The scalars of the
  model pass through \<open>json.dump\<close> and \<open>json.load\<close> unchanged, so the file is modelled by
  the value written to it; \<open>None\<close> stands for a file that is missing or does not parse
  (the \<open>FileNotFoundError\<close> and \<open>JSONDecodeError\<close> branches).
\<close>

record ledger =
  session_info :: pydict
  errors :: "pydict list"

text \<open>
  What a handler needs from outside: the clock, and whether opening \<open>error.json\<close> for
  writing succeeds (when it does not, the exception is caught and the file stays as it is).
\<close>

record env =
  now :: string
  write_ok :: bool

record nav_error =
  ne_error :: string
  ne_details :: pydict
  ne_timestamp :: string

text \<open>
  The module's globals \<open>seen_errors\<close>, \<open>navigation_in_progress\<close>, \<open>navigation_errors\<close> and
  \<open>current_element_info\<close>, the file \<open>error.json\<close> and the URL of the page.
\<close>

record session =
  seen_errors :: "string set"
  error_json :: "ledger option"
  page_url :: string
  navigation_in_progress :: bool
  navigation_errors :: "nav_error list"
  current_element_info :: "pydict option"

definition BASE_URL :: string where
  "BASE_URL = ''https://add-cwv-check--bbird--aemsites.aem.page/''"

definition MAX_ACTIONS :: nat where
  "MAX_ACTIONS = 50"

definition initialize_error_json :: "env \<Rightarrow> ledger option \<Rightarrow> ledger option" where
  "initialize_error_json e file =
     (if write_ok e
      then Some \<lparr>session_info = [(''timestamp'', PStr (now e)), (''base_url'', PStr BASE_URL),
                                 (''script_name'', PStr ''js_error_capture.py''),
                                 (''execution_start'', PStr (now e))],
                 errors = []\<rparr>
      else file)"

definition save_error_to_json :: "env \<Rightarrow> pydict \<Rightarrow> ledger option \<Rightarrow> ledger option" where
  "save_error_to_json e error_detail file =
     (if \<not> write_ok e then file
      else
        let error_data =
              (case file of
                 Some l \<Rightarrow> l
               | None \<Rightarrow> \<lparr>session_info = [(''timestamp'', PStr (now e)),
                                            (''base_url'', PStr BASE_URL),
                                            (''script_name'', PStr ''js_error_capture.py'')],
                            errors = []\<rparr>);
            errs = errors error_data @ [error_detail];
            info = dict_set ''total_errors'' (PInt (int (length errs)))
                     (dict_set ''last_updated'' (PStr (now e)) (session_info error_data))
        in Some \<lparr>session_info = info, errors = errs\<rparr>)"

section \<open>The error pipeline\<close>

text \<open>\<open>error_details.get(k, 'Unknown') if error_details else 'Unknown'\<close>\<close>

definition detail_or_unknown :: "pydict option \<Rightarrow> string \<Rightarrow> pyval" where
  "detail_or_unknown error_details k =
     (case error_details of
        None \<Rightarrow> PStr ''Unknown''
      | Some d \<Rightarrow> if d \<noteq> [] then dict_get d k (PStr ''Unknown'') else PStr ''Unknown'')"

text \<open>The scan of the file for a record with the same message, file name and line.\<close>

definition same_record :: "string \<Rightarrow> pyval \<Rightarrow> pyval \<Rightarrow> pydict \<Rightarrow> bool" where
  "same_record error_message filename_info lineno_info existing_error =
     (py_eq (dict_get existing_error ''error_message'' (PStr [])) (PStr error_message) \<and>
      py_eq (dict_get existing_error ''filename'' (PStr [])) filename_info \<and>
      py_eq (dict_get existing_error ''line_number'' (PStr [])) lineno_info)"

definition found_in_json :: "ledger option \<Rightarrow> string \<Rightarrow> pyval \<Rightarrow> pyval \<Rightarrow> bool" where
  "found_in_json file error_message filename_info lineno_info =
     (case file of
        None \<Rightarrow> False
      | Some l \<Rightarrow> list_ex (same_record error_message filename_info lineno_info) (errors l))"

definition make_error_detail ::
  "string \<Rightarrow> pyval \<Rightarrow> pyval \<Rightarrow> string \<Rightarrow> string \<Rightarrow> pyval \<Rightarrow> pyval \<Rightarrow> pyval
     \<Rightarrow> pydict option \<Rightarrow> pydict" where
  "make_error_detail error_signature error_type err timestamp url filename_info lineno_info
       colno_info error_details =
     dict_update
       [(''error_signature'', PStr error_signature), (''error_type'', error_type),
        (''error_message'', PStr (py_str err)), (''timestamp'', PStr timestamp),
        (''url'', PStr url), (''filename'', filename_info), (''line_number'', lineno_info),
        (''column_number'', colno_info), (''error_log_file'', PNone)]
       (case error_details of None \<Rightarrow> [] | Some d \<Rightarrow> d)"

text \<open>
  \<open>handle_error\<close>. Every exception is caught by the outer \<open>try\<close>, so the function
  returns at every input; what it changes is the state. A signature that cannot be
  built leaves the state as it is. \<open>error_type.upper()\<close> is evaluated after the signature
  has entered \<open>seen_errors\<close> and before the record is built: a kind that is not a \<open>str\<close>
  raises there, and nothing is written.
\<close>

definition handle_error :: "env \<Rightarrow> pyval \<Rightarrow> pyval \<Rightarrow> pydict option \<Rightarrow> session \<Rightarrow> session" where
  "handle_error e err error_type error_details st =
     (let error_message = py_str err;
          filename_info = detail_or_unknown error_details ''filename'';
          lineno_info = detail_or_unknown error_details ''lineno'';
          colno_info = detail_or_unknown error_details ''colno''
      in case generate_error_signature error_type error_message filename_info lineno_info
                colno_info of
           Inl ex \<Rightarrow> st
         | Inr error_signature \<Rightarrow>
             if error_signature \<in> seen_errors st then st
             else if found_in_json (error_json st) error_message filename_info lineno_info
             then st
             else
               (let st1 = st\<lparr>seen_errors := insert error_signature (seen_errors st)\<rparr>
                in case error_type of
                     PStr t \<Rightarrow>
                       st1\<lparr>error_json :=
                             save_error_to_json e
                               (make_error_detail error_signature error_type err (now e)
                                  (page_url st) filename_info lineno_info colno_info
                                  error_details)
                               (error_json st)\<rparr>
                   | _ \<Rightarrow> st1))"

section \<open>Code context\<close>

text \<open>The method \<open>s.split(sep)\<close> for a separator of one character.\<close>

fun split_on :: "char \<Rightarrow> string \<Rightarrow> string list" where
  "split_on c [] = [[]]"
| "split_on c (x # xs) =
     (if x = c then [] # split_on c xs
      else (case split_on c xs of l # ls \<Rightarrow> (x # l) # ls | [] \<Rightarrow> [[x]]))"

text \<open>
  The method \<open>s.strip()\<close>: white space is removed at both ends. The white space of
  Python below 256 is tab, line feed, vertical tab, form feed, carriage return, the four
  separators \<open>0x1c\<close> to \<open>0x1f\<close>, the space, next line \<open>0x85\<close> and the no-break space
  \<open>0xa0\<close>.
\<close>

definition py_isspace :: "char \<Rightarrow> bool" where
  "py_isspace c =
     (let n = (of_char c :: nat)
      in (9 \<le> n \<and> n \<le> 13) \<or> (28 \<le> n \<and> n \<le> 32) \<or> n = 133 \<or> n = 160)"

definition py_strip :: "string \<Rightarrow> string" where
  "py_strip s = rev (dropWhile py_isspace (rev (dropWhile py_isspace s)))"

text \<open>
  \<open>extract_code_context\<close>: the body of the loop, the loop over
  \<open>range(start_line, end_line + 1)\<close>, and the function. Indices count from 0, the line
  number of the error from 1. A line number that is no number raises \<open>TypeError\<close> in
  \<open>line_number - 31\<close>; the function catches it and returns \<open>None\<close>.
\<close>

definition context_line :: "string list \<Rightarrow> int \<Rightarrow> int \<Rightarrow> string" where
  "context_line lines line_number i =
     (let line_content = (if i < int (length lines) then lines ! nat i else []);
          is_error_line = (i = line_number - 1);
          marker = (if is_error_line then ''>>> '' else ''    '')
      in marker @ line_content @ [CHR 0x0A])"

definition context_string :: "string list \<Rightarrow> int \<Rightarrow> string" where
  "context_string lines line_number =
     (let start_line = max 0 (line_number - 31);
          end_line = min (int (length lines) - 1) (line_number + 29)
      in foldl (\<lambda>acc i. acc @ context_line lines line_number i) [] [start_line..end_line])"

definition extract_code_context :: "string \<Rightarrow> pyval \<Rightarrow> string option" where
  "extract_code_context source_code line_number =
     (case py_num line_number of
        None \<Rightarrow> None
      | Some n \<Rightarrow> Some (py_strip (context_string (split_on (CHR 0x0A) source_code) n)))"

text \<open>
  \<open>get_code_context_from_location\<close>: the first argument is what fetching the file in the
  page returned (\<open>None\<close> when the fetch failed).
\<close>

definition get_code_context_from_location :: "string option \<Rightarrow> pyval \<Rightarrow> string option" where
  "get_code_context_from_location fetched line_number =
     (case fetched of
        None \<Rightarrow> None
      | Some source_code \<Rightarrow>
          if source_code \<noteq> [] then extract_code_context source_code line_number else None)"

text \<open>
  The step shared by the four listeners: when file name and line are known, fetch the
  context and store it under \<open>code_context\<close> if it is not empty.
\<close>

definition add_code_context :: "string option \<Rightarrow> pydict \<Rightarrow> pydict" where
  "add_code_context fetched error_details =
     (if truthy (dict_get error_details ''filename'' PNone) \<and>
         truthy (dict_get error_details ''lineno'' PNone) \<and>
         \<not> py_eq (dict_get error_details ''filename'' PNone) (PStr ''Unknown'')
      then (case get_code_context_from_location fetched (dict_get error_details ''lineno'' PNone) of
              None \<Rightarrow> error_details
            | Some code_context \<Rightarrow>
                if code_context \<noteq> [] then dict_set ''code_context'' (PStr code_context) error_details
                else error_details)
      else error_details)"

section \<open>The listeners\<close>

text \<open>
  A raw event as a listener sees it once the location has been read off the stack, the
  message or \<open>msg.location()\<close>: the text (\<open>str(err)\<close>, \<open>msg.text\<close>, \<open>str(event.reason)\<close>),
  the details collected so far, and what fetching the source file will return.
\<close>

record raw_event =
  ev_text :: string
  ev_details :: pydict
  ev_fetched :: "string option"

text \<open>
  \<open>on_page_error\<close> and \<open>on_console\<close>, from the navigation check on. While a navigation
  is in progress the details are tagged and the event is appended to
  \<open>navigation_errors\<close>; the buffer holds the dictionary itself, so a code context stored
  afterwards is seen through the buffer too. Then, in every case, the event is passed to
  \<open>handle_error\<close>.
\<close>

definition tag_navigation :: "session \<Rightarrow> pydict \<Rightarrow> pydict" where
  "tag_navigation st error_details =
     dict_set ''navigation_url'' (PStr (page_url st))
       (dict_set ''navigation_context'' (PBool True) error_details)"

definition on_page_error :: "env \<Rightarrow> raw_event \<Rightarrow> session \<Rightarrow> session" where
  "on_page_error e ev st =
     (if navigation_in_progress st
      then (let error_details = add_code_context (ev_fetched ev) (tag_navigation st (ev_details ev));
                st1 = st\<lparr>navigation_errors := navigation_errors st @
                            [\<lparr>ne_error = ev_text ev, ne_details = error_details,
                              ne_timestamp = now e\<rparr>]\<rparr>
            in handle_error e (PStr (ev_text ev)) (PStr ''page_error'') (Some error_details) st1)
      else handle_error e (PStr (ev_text ev)) (PStr ''page_error'')
             (Some (add_code_context (ev_fetched ev) (ev_details ev))) st)"

definition on_console :: "env \<Rightarrow> string \<Rightarrow> raw_event \<Rightarrow> session \<Rightarrow> session" where
  "on_console e msg_type ev st =
     (if msg_type = ''error''
      then (if navigation_in_progress st
            then (let error_details =
                        add_code_context (ev_fetched ev) (tag_navigation st (ev_details ev));
                      st1 = st\<lparr>navigation_errors := navigation_errors st @
                                  [\<lparr>ne_error = ev_text ev, ne_details = error_details,
                                    ne_timestamp = now e\<rparr>]\<rparr>
                  in handle_error e (PStr (ev_text ev)) (PStr ''console_error'')
                       (Some error_details) st1)
            else handle_error e (PStr (ev_text ev)) (PStr ''console_error'')
                   (Some (add_code_context (ev_fetched ev) (ev_details ev))) st)
      else st)"

definition on_promise_rejection :: "env \<Rightarrow> raw_event \<Rightarrow> session \<Rightarrow> session" where
  "on_promise_rejection e ev st =
     handle_error e (PStr (ev_text ev)) (PStr ''promise_rejection'')
       (Some (add_code_context (ev_fetched ev) (ev_details ev))) st"

text \<open>
  \<open>on_custom_error\<close> for an event that is a dictionary: the message is the entry
  \<open>message\<close>, else \<open>reason\<close>, else the text of the event; the kind is the entry \<open>type\<close>.
\<close>

definition on_custom_error :: "env \<Rightarrow> raw_event \<Rightarrow> session \<Rightarrow> session" where
  "on_custom_error e ev st =
     (let error_message = dict_get (ev_details ev) ''message''
                            (dict_get (ev_details ev) ''reason'' (PStr (ev_text ev)));
          error_details = add_code_context (ev_fetched ev) (ev_details ev)
      in handle_error e error_message (dict_get error_details ''type'' (PStr ''custom_error''))
           (Some error_details) st)"

datatype arrival =
    PageError raw_event
  | Console string raw_event
  | PromiseRejection raw_event
  | CustomError raw_event

fun deliver :: "env \<times> arrival \<Rightarrow> session \<Rightarrow> session" where
  "deliver (e, PageError ev) st = on_page_error e ev st"
| "deliver (e, Console msg_type ev) st = on_console e msg_type ev st"
| "deliver (e, PromiseRejection ev) st = on_promise_rejection e ev st"
| "deliver (e, CustomError ev) st = on_custom_error e ev st"

section \<open>Domains of URLs\<close>

text \<open>
  The script reads the domain of a URL off \<open>urlparse(url).netloc\<close>. The parser is the one
  of the standard library (\<open>urllib.parse.urlsplit\<close>, as it stands in CPython 3.11), and
  the part of it that decides the network location is followed step by step: leading
  control characters and spaces are stripped, tabs, carriage returns and line feeds are
  removed everywhere, a well-formed scheme and its colon are cut off, and a URL that
  then goes on with two slashes has as network location everything up to the next
  slash, question mark or hash; any other URL has the empty one. A network location
  with only one of the two brackets, or with brackets around something that is neither
  an IPv6 address nor an address of a later version, makes the parser raise
  \<open>ValueError\<close>.
\<close>

definition is_alpha :: "char \<Rightarrow> bool" where
  "is_alpha c = (let n = (of_char c :: nat) in (65 \<le> n \<and> n \<le> 90) \<or> (97 \<le> n \<and> n \<le> 122))"

definition is_digit :: "char \<Rightarrow> bool" where
  "is_digit c = (let n = (of_char c :: nat) in 48 \<le> n \<and> n \<le> 57)"

definition is_hex_digit :: "char \<Rightarrow> bool" where
  "is_hex_digit c =
     (let n = (of_char c :: nat)
      in is_digit c \<or> (65 \<le> n \<and> n \<le> 70) \<or> (97 \<le> n \<and> n \<le> 102))"

definition is_scheme_char :: "char \<Rightarrow> bool" where
  "is_scheme_char c =
     (is_alpha c \<or> is_digit c \<or> c = CHR ''+'' \<or> c = CHR ''-'' \<or> c = CHR ''.'')"

text \<open>\<open>_WHATWG_C0_CONTROL_OR_SPACE\<close> and \<open>_UNSAFE_URL_BYTES_TO_REMOVE\<close>.\<close>

definition is_c0_control_or_space :: "char \<Rightarrow> bool" where
  "is_c0_control_or_space c = ((of_char c :: nat) \<le> 32)"

definition is_unsafe_url_byte :: "char \<Rightarrow> bool" where
  "is_unsafe_url_byte c = (let n = (of_char c :: nat) in n = 9 \<or> n = 13 \<or> n = 10)"

definition after_scheme :: "string \<Rightarrow> string" where
  "after_scheme url =
     (let s = takeWhile (\<lambda>c. c \<noteq> CHR '':'') url
      in if length s < length url \<and> s \<noteq> [] \<and> is_alpha (hd s) \<and> list_all is_scheme_char s
         then drop (length s + 1) url else url)"

text \<open>
  \<open>ipaddress.IPv4Address(s)\<close> for a string: whether the constructor returns. There are
  four octets between dots; an octet has one to three decimal digits, no leading zero
  unless it is \<open>0\<close>, and a value of at most 255.
\<close>

definition dec_value :: "string \<Rightarrow> nat" where
  "dec_value s = foldl (\<lambda>acc c. 10 * acc + ((of_char c :: nat) - 48)) 0 s"

definition parse_octet_ok :: "string \<Rightarrow> bool" where
  "parse_octet_ok octet_str =
     (octet_str \<noteq> [] \<and> list_all is_digit octet_str \<and> length octet_str \<le> 3 \<and>
      (octet_str = ''0'' \<or> hd octet_str \<noteq> CHR ''0'') \<and> dec_value octet_str \<le> 255)"

definition ipv4_address_ok :: "string \<Rightarrow> bool" where
  "ipv4_address_ok address =
     (CHR ''/'' \<notin> set address \<and> address \<noteq> [] \<and>
      (let octets = split_on CHR ''.'' address
       in length octets = 4 \<and> list_all parse_octet_ok octets))"

text \<open>
  \<open>ipaddress.IPv6Address(s)\<close> for a string: whether the constructor returns. A scope
  after a percent sign is split off and must be non-empty and free of percent signs.
  The address is split at the colons into at least three parts. A last part with a dot
  must be an IPv4 address and is replaced by its two hextets; these are well formed
  whatever the address, and as only the form is checked here they are written \<open>0\<close>. At
  most one part strictly between the first and the last is empty (the place of \<open>::\<close>);
  \<open>parts_hi\<close> parts before it and \<open>parts_lo\<close> parts after it are hextets, of one to four
  hexadecimal digits.
\<close>

definition parse_hextet_ok :: "string \<Rightarrow> bool" where
  "parse_hextet_ok hextet_str =
     (list_all is_hex_digit hextet_str \<and> length hextet_str \<le> 4 \<and> hextet_str \<noteq> [])"

definition ipv6_parts_ok :: "string list \<Rightarrow> bool" where
  "ipv6_parts_ok parts =
     (case filter (\<lambda>i. parts ! i = []) [1..<length parts - 1] of
        [] \<Rightarrow>
          length parts = 8 \<and> hd parts \<noteq> [] \<and> last parts \<noteq> [] \<and> list_all parse_hextet_ok parts
      | [skip_index] \<Rightarrow>
          (let parts_hi = (if hd parts = [] then skip_index - 1 else skip_index);
               parts_lo = (if last parts = [] then length parts - skip_index - 1 - 1
                           else length parts - skip_index - 1)
           in (if hd parts = [] then parts_hi = 0 else True) \<and>
              (if last parts = [] then parts_lo = 0 else True) \<and>
              parts_hi + parts_lo \<le> 7 \<and>
              list_all parse_hextet_ok (take parts_hi parts) \<and>
              list_all parse_hextet_ok (drop (length parts - parts_lo) parts))
      | _ \<Rightarrow> False)"

definition ipv6_address_ok :: "string \<Rightarrow> bool" where
  "ipv6_address_ok address =
     (let addr = takeWhile (\<lambda>c. c \<noteq> CHR ''%'') address;
          scope_id = drop (length addr + 1) address
      in CHR ''/'' \<notin> set address \<and>
         (if CHR ''%'' \<in> set address then scope_id \<noteq> [] \<and> CHR ''%'' \<notin> set scope_id
          else True) \<and>
         addr \<noteq> [] \<and>
         (let parts = split_on CHR '':'' addr
          in 3 \<le> length parts \<and>
             (if CHR ''.'' \<in> set (last parts)
              then ipv4_address_ok (last parts) \<and>
                   length (butlast parts @ [''0'', ''0'']) \<le> 9 \<and>
                   ipv6_parts_ok (butlast parts @ [''0'', ''0''])
              else length parts \<le> 9 \<and> ipv6_parts_ok parts)))"

text \<open>
  \<open>_check_bracketed_host\<close>: whether it returns. A host that starts with \<open>v\<close> must go
  on with one or more hexadecimal digits, a dot, and one or more characters other than
  a line feed; any other host goes to \<open>ipaddress.ip_address\<close>, which tries IPv4 first,
  and an IPv4 address in brackets is refused.
\<close>

definition check_bracketed_host :: "string \<Rightarrow> bool" where
  "check_bracketed_host hostname =
     (if take 1 hostname = ''v''
      then (let digits = takeWhile is_hex_digit (drop 1 hostname);
                rest = drop (1 + length digits) hostname
            in digits \<noteq> [] \<and> take 1 rest = ''.'' \<and> drop 1 rest \<noteq> [] \<and>
               CHR 0x0A \<notin> set (drop 1 rest))
      else if ipv4_address_ok hostname then False
      else ipv6_address_ok hostname)"

text \<open>
  \<open>urlparse(url).netloc\<close>. The last check of the parser, \<open>_checknetloc\<close>, looks for a
  slash, question mark, hash, at sign or colon that appears in a network location only
  after NFKC normalisation; no character below 256 normalises to one of these, so for
  the strings of this model the check always passes.
\<close>

definition urlparse_netloc :: "string \<Rightarrow> py_error + string" where
  "urlparse_netloc url0 =
     (let url = filter (\<lambda>c. \<not> is_unsafe_url_byte c) (dropWhile is_c0_control_or_space url0);
          rest = after_scheme url
      in if take 2 rest = ''//''
         then (let netloc = takeWhile (\<lambda>c. c \<noteq> CHR ''/'' \<and> c \<noteq> CHR ''?'' \<and> c \<noteq> CHR ''#'')
                              (drop 2 rest);
                   bracketed_host = takeWhile (\<lambda>c. c \<noteq> CHR '']'')
                                      (drop 1 (dropWhile (\<lambda>c. c \<noteq> CHR ''['') netloc))
               in if (CHR ''['' \<in> set netloc) \<noteq> (CHR '']'' \<in> set netloc) then Inl ValueError
                  else if CHR ''['' \<in> set netloc \<and> \<not> check_bracketed_host bracketed_host
                  then Inl ValueError
                  else Inr netloc)
         else Inr [])"

text \<open>
  \<open>_extract_domain\<close>, and the function \<open>extract_domain\<close> nested in \<open>handle_navigation\<close>,
  which has the same body: the network location, or the URL itself when the parser
  raises.
\<close>

definition extract_domain :: "string \<Rightarrow> string" where
  "extract_domain url = (case urlparse_netloc url of Inl ex \<Rightarrow> url | Inr netloc \<Rightarrow> netloc)"

section \<open>The navigation guard\<close>

definition original_url :: string where
  "original_url = BASE_URL"

text \<open>
  What the browser does with one attempt to return: \<open>page.goto\<close> or \<open>page.reload\<close>
  completes, or it raises and leaves the page at some URL. A \<open>goto\<close> that completes has
  committed the URL it was given; a reload that completes keeps the URL of the page.
\<close>

datatype attempt = Completes | Raises string

text \<open>
  The surroundings of one run of \<open>handle_navigation\<close>: the events that the listeners
  receive while the routine waits for the load state, the clock and disk at the flush,
  the events received while the page is sent back, and the outcome of each of the five
  methods should it be tried.
\<close>

record nav_env =
  nv_early :: "(env \<times> arrival) list"
  nv_flush :: env
  nv_late :: "(env \<times> arrival) list"
  nv_goto1 :: attempt
  nv_reload2 :: attempt
  nv_goto3 :: attempt
  nv_goto4 :: attempt
  nv_goto5 :: attempt

definition element_text :: "pydict option \<Rightarrow> pyval" where
  "element_text element_info =
     (case element_info of
        None \<Rightarrow> PStr ''Unknown''
      | Some i \<Rightarrow> if i \<noteq> [] then dict_get i ''text'' (PStr ''Unknown'') else PStr ''Unknown'')"

text \<open>
  The loop over \<open>navigation_errors\<close>: each buffered entry gets the URL of the navigation
  and the text of the element written into its details, and is passed to
  \<open>handle_error\<close> as a \<open>navigation_error\<close>.
\<close>

definition flush_details :: "string \<Rightarrow> pydict option \<Rightarrow> nav_error \<Rightarrow> nav_error" where
  "flush_details new_url element_info nav_err =
     nav_err\<lparr>ne_details :=
       dict_set ''element_that_caused_navigation'' (element_text element_info)
         (dict_set ''navigation_url'' (PStr new_url) (ne_details nav_err))\<rparr>"

definition flush_navigation_errors :: "env \<Rightarrow> string \<Rightarrow> pydict option \<Rightarrow> session \<Rightarrow> session" where
  "flush_navigation_errors e new_url element_info st =
     (let buffered = map (flush_details new_url element_info) (navigation_errors st)
      in foldl (\<lambda>s nav_err. handle_error e (PStr (ne_error nav_err)) (PStr ''navigation_error'')
                               (Some (ne_details nav_err)) s)
           (st\<lparr>navigation_errors := buffered\<rparr>) buffered)"

text \<open>
  The five methods. Each is tried only while \<open>return_success\<close> is false; the pair is the
  URL of the page and \<open>return_success\<close>. Method 2 reloads, and only when the page is
  still on the domain of the original URL.
\<close>

definition try_goto :: "attempt \<Rightarrow> string \<times> bool \<Rightarrow> string \<times> bool" where
  "try_goto a p =
     (if snd p then p
      else (case a of Completes \<Rightarrow> (original_url, True) | Raises u \<Rightarrow> (u, False)))"

definition try_reload :: "attempt \<Rightarrow> string \<times> bool \<Rightarrow> string \<times> bool" where
  "try_reload a p =
     (if snd p then p
      else if extract_domain (fst p) = extract_domain original_url
      then (case a of Completes \<Rightarrow> (fst p, True) | Raises u \<Rightarrow> (u, False))
      else p)"

definition return_to_original :: "nav_env \<Rightarrow> string \<Rightarrow> string \<times> bool" where
  "return_to_original n url =
     try_goto (nv_goto5 n) (try_goto (nv_goto4 n) (try_goto (nv_goto3 n)
       (try_reload (nv_reload2 n) (try_goto (nv_goto1 n) (url, False)))))"

text \<open>
  \<open>handle_navigation\<close>. \<open>navigation_waited\<close> is the state when the wait for the load
  state is over, \<open>navigation_flushed\<close> the state right after the loop over the buffer;
  the routine then sends the page back and, whatever the methods did, ends with
  \<open>navigation_in_progress = False\<close>.
\<close>

definition navigation_waited :: "nav_env \<Rightarrow> session \<Rightarrow> session" where
  "navigation_waited n st =
     foldl (\<lambda>s a. deliver a s) (st\<lparr>navigation_in_progress := True, navigation_errors := []\<rparr>)
       (nv_early n)"

definition navigation_flushed :: "nav_env \<Rightarrow> string \<Rightarrow> pydict option \<Rightarrow> session \<Rightarrow> session" where
  "navigation_flushed n new_url element_info st =
     (let info = (case element_info of None \<Rightarrow> current_element_info st | Some i \<Rightarrow> Some i)
      in flush_navigation_errors (nv_flush n) new_url info (navigation_waited n st))"

definition handle_navigation :: "nav_env \<Rightarrow> string \<Rightarrow> pydict option \<Rightarrow> session \<Rightarrow> session" where
  "handle_navigation n new_url element_info st =
     (if new_url = original_url then st
      else (let st3 = navigation_flushed n new_url element_info st;
                st4 = foldl (\<lambda>s a. deliver a s) st3 (nv_late n);
                returned = return_to_original n (page_url st4)
            in st4\<lparr>page_url := fst returned, navigation_in_progress := False\<rparr>))"

section \<open>A session\<close>

text \<open>
  What happens in a session, as far as the shared state goes: an event reaches a
  listener, the browser reports a navigation of the frame, or the page moves to another
  URL.
\<close>

datatype action =
    Arrive env arrival
  | FrameNavigated nav_env string
  | PageMoved string

fun step :: "action \<Rightarrow> session \<Rightarrow> session" where
  "step (Arrive e a) st = deliver (e, a) st"
| "step (FrameNavigated n new_url) st = handle_navigation n new_url None st"
| "step (PageMoved url) st = st\<lparr>page_url := url\<rparr>"

definition run :: "action list \<Rightarrow> session \<Rightarrow> session" where
  "run acts st = foldl (\<lambda>s a. step a s) st acts"

text \<open>The state in which \<open>main\<close> starts the session.\<close>

definition start_session :: "env \<Rightarrow> ledger option \<Rightarrow> session" where
  "start_session e file =
     \<lparr>seen_errors = {}, error_json = initialize_error_json e file, page_url = BASE_URL,
      navigation_in_progress = False, navigation_errors = [], current_element_info = None\<rparr>"

section \<open>Phase A: clicking all links and buttons\<close>

text \<open>\<open>_is_external_link\<close>; a URL on which the parser raises counts as internal.\<close>

definition is_external_link :: "string \<Rightarrow> string \<Rightarrow> bool" where
  "is_external_link href target_domain =
     (if href = [] \<or> target_domain = [] then False
      else (case urlparse_netloc href of
              Inl ex \<Rightarrow> False
            | Inr link_domain \<Rightarrow>
                if link_domain = [] then False else link_domain \<noteq> target_domain))"

text \<open>
  What the driver answers when the sweep asks about one element handle; \<open>None\<close> means
  that the call raised. \<open>el_text\<close> stands for the three evaluations of id, class and
  text; \<open>el_href\<close> is \<open>el.href || ''\<close>, \<open>el_target\<close> is \<open>el.target || ''\<close>, \<open>el_path\<close> what
  \<open>_get_stable_dom_path\<close> returns (it has its own fallback and never raises),
  \<open>el_scroll\<close> whether scrolling into view completes, \<open>el_enabled\<close> the check before the
  click.
\<close>

record element_probe =
  el_handle :: nat
  el_visible :: "bool option"
  el_tag :: "string option"
  el_text :: "string option"
  el_href :: "string option"
  el_path :: string
  el_target :: "string option"
  el_scroll :: bool
  el_enabled :: "bool option"

record element_info =
  ei_element :: element_probe
  ei_tag_name :: string
  ei_href :: "string option"
  ei_is_external :: bool

text \<open>
  The discovery loop. Its state is the local variable \<open>tag_name\<close> (unbound at first) and
  the list \<open>all_clickable_elements\<close>. An element whose probe raises is dropped by the
  inner \<open>except\<close>, but an assignment to \<open>tag_name\<close> made before that stays.
\<close>

definition discover_one ::
  "string \<Rightarrow> string option \<times> element_info list \<Rightarrow> element_probe
     \<Rightarrow> string option \<times> element_info list" where
  "discover_one target_domain acc el =
     (case el_visible el of
        Some True \<Rightarrow>
          (case el_tag el of
             None \<Rightarrow> acc
           | Some t \<Rightarrow>
               (case el_text el of
                  None \<Rightarrow> (Some t, snd acc)
                | Some txt \<Rightarrow>
                    if t = ''a''
                    then (case el_href el of
                            None \<Rightarrow> (Some t, snd acc)
                          | Some href \<Rightarrow>
                              (Some t, snd acc @
                                 [\<lparr>ei_element = el, ei_tag_name = t, ei_href = Some href,
                                   ei_is_external = is_external_link href target_domain\<rparr>]))
                    else (Some t, snd acc @
                            [\<lparr>ei_element = el, ei_tag_name = t, ei_href = None,
                              ei_is_external = False\<rparr>])))
      | _ \<Rightarrow> acc)"

text \<open>One entry per selector, in order: the elements it matched, or \<open>None\<close> if the query raised.\<close>

definition discover_clickable ::
  "string \<Rightarrow> element_probe list option list \<Rightarrow> string option \<times> element_info list" where
  "discover_clickable target_domain queries =
     foldl (\<lambda>acc q. case q of None \<Rightarrow> acc | Some els \<Rightarrow> foldl (discover_one target_domain) acc els)
       (None, []) queries"

text \<open>
  One round of the click loop. Its state is the set \<open>clicked_elements\<close> and the handles on
  which \<open>click\<close> has been called. The test for a new tab reads the variable \<open>tag_name\<close>
  that the discovery loop left behind, not the tag of the element at hand; were it
  unbound, the \<open>NameError\<close> would be caught and the element passed over. What follows
  the click (the wait, the checks of the URL and of the content, the return to the
  original site) decides nothing about which elements are clicked and is left out.
\<close>

definition sweep_one ::
  "string option \<Rightarrow> string set \<times> nat list \<Rightarrow> element_info \<Rightarrow> string set \<times> nat list" where
  "sweep_one tag_name acc info =
     (let el = ei_element info; element_path = el_path el
      in if element_path \<in> fst acc then acc
         else (let acc1 = (insert element_path (fst acc), snd acc)
               in if ei_is_external info then acc1
                  else if tag_name = None then acc1
                  else if tag_name = Some ''a'' \<and>
                          (case el_target el of
                             None \<Rightarrow> True
                           | Some target_attr \<Rightarrow> target_attr \<in> set [''_blank'', ''_new'', ''_top''])
                  then acc1
                  else if \<not> el_scroll el then acc1
                  else if el_enabled el = Some False then acc1
                  else (fst acc1, snd acc1 @ [el_handle el])))"

record sweep_summary =
  total_elements_found :: nat
  clicked_elements :: "string set"
  click_calls :: "nat list"

definition click_all_links_and_buttons :: "string \<Rightarrow> element_probe list option list \<Rightarrow> sweep_summary" where
  "click_all_links_and_buttons url queries =
     (let target_domain = extract_domain url;
          found = discover_clickable target_domain queries;
          done = foldl (sweep_one (fst found)) ({}, []) (snd found)
      in \<lparr>total_elements_found = length (snd found), clicked_elements = fst done,
          click_calls = snd done\<rparr>)"

section \<open>Phase B: clicking the suggestions of an input field\<close>

text \<open>
  What happens in round \<open>j\<close> of the loop over the suggestions: whether reading the text
  of the suggestion, clicking it, and typing the probe again complete, and what
  \<open>_find_dropdown_suggestions\<close> returns after the retyping.
\<close>

record suggestion_env =
  sg_text_ok :: bool
  sg_click_ok :: bool
  sg_retype_ok :: bool
  sg_new_dropdown :: "nat list"

datatype ui_call = ClickSuggestion nat | Reprobe

text \<open>
  \<open>for j, suggestion in enumerate(dropdown_elements)\<close>, with \<open>n\<close> the length of
  \<open>dropdown_elements\<close>. The \<open>for\<close> statement binds \<open>suggestion\<close> anew in each round, to
  the next handle of the list it iterates; the assignment \<open>suggestion = new_dropdown[j + 1]\<close>
  at the end of a round is overwritten by it. Any exception ends the loop. The result
  lists the clicks on suggestions and the new probes, in order. The tests of the field
  with other characters and with a full text, which follow, are left out.
\<close>

fun click_suggestions :: "(nat \<Rightarrow> suggestion_env) \<Rightarrow> nat \<Rightarrow> nat \<Rightarrow> nat list \<Rightarrow> ui_call list" where
  "click_suggestions env n j [] = []"
| "click_suggestions env n j (item # rest) =
     (let suggestion = item
      in if \<not> sg_text_ok (env j) then []
         else ClickSuggestion suggestion #
           (if \<not> sg_click_ok (env j) then []
            else if j < n - 1
            then Reprobe #
              (if \<not> sg_retype_ok (env j) then []
               else (let new_dropdown = sg_new_dropdown (env j)
                     in if new_dropdown \<noteq> [] \<and> length new_dropdown > j + 1
                        then (let suggestion = new_dropdown ! (j + 1)
                              in click_suggestions env n (j + 1) rest)
                        else []))
            else click_suggestions env n (j + 1) rest))"

definition test_dropdown :: "(nat \<Rightarrow> suggestion_env) \<Rightarrow> nat list \<Rightarrow> ui_call list" where
  "test_dropdown env dropdown_elements =
     (if dropdown_elements \<noteq> []
      then click_suggestions env (length dropdown_elements) 0 dropdown_elements
      else [])"

section \<open>Phase C: recursive exploration\<close>

text \<open>
  What one step of the exploration meets: the elements that
  \<open>discover_interactive_elements\<close> returns, each with the result of \<open>get_xpath\<close> (\<open>None\<close>
  if it raised), and the number drawn by \<open>random.choice\<close>.
\<close>

record explore_env =
  ex_elements :: "(nat \<times> string option) list"
  ex_choice :: nat

text \<open>
  The global \<open>visited_selectors\<close>, the counter \<open>actions_performed\<close>, and the elements
  handed to \<open>intelligent_interaction\<close> so far.
\<close>

record exploration =
  visited_selectors :: "string set"
  actions_performed :: nat
  interactions :: "nat list"

datatype stop = MaxActionsReached | NoElementsFound | AllVisited

definition unvisited :: "string set \<Rightarrow> (nat \<times> string option) list \<Rightarrow> (nat \<times> string) list" where
  "unvisited visited els =
     concat (map (\<lambda>p. case snd p of
                         None \<Rightarrow> []
                       | Some xpath \<Rightarrow> if xpath \<notin> visited then [(fst p, xpath)] else []) els)"

text \<open>
  \<open>recursive_monkey_exploration\<close>. \<open>intelligent_interaction\<close> catches its own exceptions,
  so the counter is increased in every step that picks an element. The result is the
  reason of the return and the state left behind.
\<close>

function recursive_monkey_exploration ::
  "(nat \<Rightarrow> explore_env) \<Rightarrow> nat \<Rightarrow> exploration \<Rightarrow> stop \<times> exploration" where
  "recursive_monkey_exploration env actions_done ex =
     (if actions_done \<ge> MAX_ACTIONS then (MaxActionsReached, ex)
      else (let all_elements = ex_elements (env actions_done)
            in if all_elements = [] then (NoElementsFound, ex)
               else (let unvisited_elements = unvisited (visited_selectors ex) all_elements
                     in if unvisited_elements = [] then (AllVisited, ex)
                        else (let picked = unvisited_elements !
                                    (ex_choice (env actions_done) mod length unvisited_elements)
                              in recursive_monkey_exploration env (actions_done + 1)
                                   (ex\<lparr>visited_selectors :=
                                          insert (snd picked) (visited_selectors ex),
                                        actions_performed := actions_performed ex + 1,
                                        interactions := interactions ex @ [fst picked]\<rparr>)))))"
  by pat_completeness auto
termination
  by (relation "measure (\<lambda>(env, actions_done, ex). MAX_ACTIONS - actions_done)") auto

declare recursive_monkey_exploration.simps [simp del]

section \<open>Notions used to state the properties\<close>

text \<open>
  How the shared state can change in a session: by a call of \<open>handle_error\<close>, by a write
  to the buffer, to the navigation flag or to the URL of the page. Every listener and the
  navigation guard are made of such steps.
\<close>

inductive evolves :: "session \<Rightarrow> session \<Rightarrow> bool" where
  ev_refl: "evolves st st"
| ev_handle: "evolves st st' \<Longrightarrow> evolves st (handle_error e err k d st')"
| ev_buffer: "evolves st st' \<Longrightarrow> evolves st (st'\<lparr>navigation_errors := b\<rparr>)"
| ev_flag: "evolves st st' \<Longrightarrow> evolves st (st'\<lparr>navigation_in_progress := f\<rparr>)"
| ev_url: "evolves st st' \<Longrightarrow> evolves st (st'\<lparr>page_url := u\<rparr>)"

text \<open>
  What two reports of one fault share: the message cut to 200 characters, and the file
  name, line and column as \<open>handle_error\<close> reads them.
\<close>

definition fault_key :: "pyval \<Rightarrow> pydict option \<Rightarrow> string \<times> pyval \<times> pyval \<times> pyval" where
  "fault_key err error_details =
     (take 200 (py_str err), detail_or_unknown error_details ''filename'',
      detail_or_unknown error_details ''lineno'', detail_or_unknown error_details ''colno'')"

text \<open>
  The ledger's count agrees with its list: \<open>session_info.total_errors\<close> is there and
  equals the length of \<open>errors\<close>.
\<close>

definition counts_agree :: "ledger \<Rightarrow> bool" where
  "counts_agree l = (map_of (session_info l) ''total_errors'' = Some (PInt (int (length (errors l)))))"

text \<open>
  A sequence of calls of \<open>handle_error\<close>, and the number of them that were accepted, that
  is, that wrote the ledger.
\<close>

type_synonym call = "env \<times> pyval \<times> pyval \<times> pydict option"

fun handle_call :: "call \<Rightarrow> session \<Rightarrow> session" where
  "handle_call (e, err, k, d) st = handle_error e err k d st"

fun accepted :: "call list \<Rightarrow> session \<Rightarrow> nat" where
  "accepted [] st = 0"
| "accepted (c # cs) st =
     (if error_json (handle_call c st) \<noteq> error_json st then 1 else 0)
       + accepted cs (handle_call c st)"

text \<open>
  A report is settled in a state when the pipeline has dealt with it: its signature is
  in \<open>seen_errors\<close>, or the ledger holds a record with its message, file name and line,
  or it has no signature at all (the call that builds it raises).
\<close>

definition settled :: "session \<Rightarrow> string \<Rightarrow> pydict \<Rightarrow> bool" where
  "settled st text details =
     (case generate_error_signature PNone text (detail_or_unknown (Some details) ''filename'')
             (detail_or_unknown (Some details) ''lineno'')
             (detail_or_unknown (Some details) ''colno'') of
        Inl ex \<Rightarrow> True
      | Inr sg \<Rightarrow>
          sg \<in> seen_errors st \<or>
          found_in_json (error_json st) text (detail_or_unknown (Some details) ''filename'')
            (detail_or_unknown (Some details) ''lineno''))"

text \<open>
  The details with which a page error or console error that arrives during a navigation
  is buffered and handled: tagged, then completed by the code context.
\<close>

definition arrival_details :: "session \<Rightarrow> raw_event \<Rightarrow> pydict" where
  "arrival_details st ev = add_code_context (ev_fetched ev) (tag_navigation st (ev_details ev))"

text \<open>What the five methods keep true of the URL and the flag \<open>return_success\<close>.\<close>

definition returned_ok :: "string \<times> bool \<Rightarrow> bool" where
  "returned_ok p = (snd p \<longrightarrow> extract_domain (fst p) = extract_domain original_url)"

text \<open>
  A field whose suggestions are replaced by new elements each time the probe is typed
  again: after round \<open>j\<close> the overlay holds the handles \<open>20 + 10 j\<close>, \<open>21 + 10 j\<close>, \<open>22 + 10 j\<close>.
  In \<open>replaced_suggestions\<close> every driver call completes; in \<open>detached_suggestions\<close> a
  click completes only in round 0, as when the driver refuses to click a handle whose
  element has left the document.
\<close>

definition replaced_suggestions :: "nat \<Rightarrow> suggestion_env" where
  "replaced_suggestions j =
     \<lparr>sg_text_ok = True, sg_click_ok = True, sg_retype_ok = True,
      sg_new_dropdown = [20 + 10 * j, 21 + 10 * j, 22 + 10 * j]\<rparr>"

definition detached_suggestions :: "nat \<Rightarrow> suggestion_env" where
  "detached_suggestions j =
     \<lparr>sg_text_ok = True, sg_click_ok = (j = 0), sg_retype_ok = True,
      sg_new_dropdown = [20 + 10 * j, 21 + 10 * j, 22 + 10 * j]\<rparr>"

text \<open>
  The context window in the words of the specification, with lines numbered from 1: the
  lines from 30 before the error line to 30 after it, clipped to the file, each followed
  by a line feed, the error line behind the marker and every other line behind four
  spaces.
\<close>

definition spec_window :: "nat \<Rightarrow> int \<Rightarrow> int list" where
  "spec_window n line_number = [max 1 (line_number - 30)..min (int n) (line_number + 30)]"

definition spec_line :: "string list \<Rightarrow> int \<Rightarrow> int \<Rightarrow> string" where
  "spec_line lines line_number k =
     (if k = line_number then ''>>> '' else ''    '') @ lines ! nat (k - 1) @ [CHR 0x0A]"

definition spec_context :: "string list \<Rightarrow> int \<Rightarrow> string" where
  "spec_context lines line_number =
     concat (map (spec_line lines line_number) (spec_window (length lines) line_number))"

text \<open>A page that shows one link, whatever has been done to it.\<close>

definition single_link_page :: "nat \<Rightarrow> explore_env" where
  "single_link_page actions_done =
     \<lparr>ex_elements = [(1, Some ''/html[1]/body[1]/a[1]'')], ex_choice = 7\<rparr>"

section \<open>Properties of the signature\<close>

text \<open>
  Two digests of the test suite of RFC 1321, and the digest that \<open>hashlib\<close> gives for a
  string with the code points \<open>0xe9\<close> and \<open>0xa0\<close>.
\<close>

lemma md5_empty: "md5_hexdigest (utf8_encode []) = ''d41d8cd98f00b204e9800998ecf8427e''"
  by code_simp

lemma md5_abc: "md5_hexdigest (utf8_encode ''abc'') = ''900150983cd24fb0d6963f7d28e17f72''"
  by code_simp

lemma md5_latin:
  "md5_hexdigest (utf8_encode [CHR ''c'', CHR ''a'', CHR ''f'', CHR 0xE9, CHR ''|'', CHR 0xA0])
     = ''09466ce429d00df6bec2331d11eb4dff''"
  by code_simp

lemma message_cut: "(if msg \<noteq> [] then take 200 msg else []) = take 200 msg"
  by simp

lemma signature_of_cut:
  "take 200 m1 = take 200 m2 \<Longrightarrow>
   generate_error_signature kind1 m1 filename lineno colno
     = generate_error_signature kind2 m2 filename lineno colno"
proof -
  assume "take 200 m1 = take 200 m2"
  then have "signature_parts m1 filename lineno colno = signature_parts m2 filename lineno colno"
    unfolding signature_parts_def message_cut by simp
  then show ?thesis
    by (simp add: generate_error_signature_def)
qed

text \<open>
  Claim C2. The signature is the digest of exactly four components joined by a bar: the
  message cut to its first 200 characters, the file name, the line and the column. The
  kind of the error is no input: two events of any two kinds whose messages agree on the
  first 200 characters and whose file name, line and column are equal get the same
  signature.
\<close>

theorem signature_ignores_kind:
  "(take 200 m1 = take 200 m2 \<longrightarrow>
      generate_error_signature kind1 m1 filename lineno colno
        = generate_error_signature kind2 m2 filename lineno colno) \<and>
   generate_error_signature kind m (PStr f) lineno colno
     = Inr (md5_hexdigest (utf8_encode (join ''|''
         [take 200 m, f, if truthy lineno then py_str lineno else [],
          if truthy colno then py_str colno else []])))"
proof -
  have "generate_error_signature kind m (PStr f) lineno colno
     = Inr (md5_hexdigest (utf8_encode (join ''|''
         [take 200 m, f, if truthy lineno then py_str lineno else [],
          if truthy colno then py_str colno else []])))"
    unfolding generate_error_signature_def signature_parts_def message_cut by simp
  then show ?thesis
    using signature_of_cut by blast
qed

theorem signature_ignores_kind_witness:
  "take 200 (replicate 200 (CHR ''a'') @ ''x'') = take 200 (replicate 200 (CHR ''a'') @ ''y'') \<and>
   generate_error_signature (PStr ''console_error'') (replicate 200 (CHR ''a'') @ ''x'')
       (PStr ''app.js'') (PInt 3) (PInt 7)
     = generate_error_signature (PStr ''promise_rejection'') (replicate 200 (CHR ''a'') @ ''y'')
         (PStr ''app.js'') (PInt 3) (PInt 7)"
proof -
  have h: "take 200 (replicate 200 (CHR ''a'') @ ''x'')
             = take 200 (replicate 200 (CHR ''a'') @ ''y'')"
    by simp
  from signature_ignores_kind
         [where ?m1.0 = "replicate 200 (CHR ''a'') @ ''x''"
            and ?m2.0 = "replicate 200 (CHR ''a'') @ ''y''"
            and ?kind1.0 = "PStr ''console_error''" and ?kind2.0 = "PStr ''promise_rejection''"
            and filename = "PStr ''app.js''" and lineno = "PInt 3" and colno = "PInt 7"]
       h
  show ?thesis by blast
qed

section \<open>How the session state evolves\<close>

lemma evolves_trans: "evolves b c \<Longrightarrow> evolves a b \<Longrightarrow> evolves a c"
  by (induction rule: evolves.induct) (auto intro: evolves.intros)

lemma on_page_error_evolves: "evolves st (on_page_error e ev st)"
  by (auto simp: on_page_error_def Let_def intro!: evolves.intros)

lemma on_console_evolves: "evolves st (on_console e t ev st)"
  by (auto simp: on_console_def Let_def intro!: evolves.intros)

lemma deliver_evolves: "evolves st (deliver a st)"
proof (cases a)
  case (Pair e arr)
  then show ?thesis
    by (cases arr)
       (auto simp: on_page_error_evolves on_console_evolves on_promise_rejection_def
          on_custom_error_def Let_def intro!: evolves.intros)
qed

lemma deliver_all_evolves: "evolves st (foldl (\<lambda>s a. deliver a s) st as)"
proof (induction as rule: rev_induct)
  case Nil
  show ?case by (simp add: ev_refl)
next
  case (snoc a as)
  then show ?case using deliver_evolves evolves_trans by fastforce
qed

lemma handle_all_evolves:
  "evolves st (foldl (\<lambda>s x. handle_error e (f x) k (g x) s) st xs)"
  by (induction xs rule: rev_induct) (auto intro: evolves.intros)

lemma flush_evolves: "evolves st (flush_navigation_errors e u i st)"
  unfolding flush_navigation_errors_def Let_def
  by (rule evolves_trans [OF handle_all_evolves]) (auto intro: evolves.intros)

lemma navigation_waited_evolves: "evolves st (navigation_waited n st)"
proof -
  have "evolves st (st\<lparr>navigation_in_progress := True, navigation_errors := []\<rparr>)"
    by (auto intro: evolves.intros)
  then show ?thesis
    unfolding navigation_waited_def
    using deliver_all_evolves evolves_trans by blast
qed

lemma navigation_flushed_evolves: "evolves st (navigation_flushed n u i st)"
  unfolding navigation_flushed_def Let_def
  using navigation_waited_evolves flush_evolves evolves_trans by blast

lemma handle_navigation_evolves: "evolves st (handle_navigation n u i st)"
  unfolding handle_navigation_def Let_def
  by (auto intro!: evolves.intros evolves_trans [OF deliver_all_evolves]
        navigation_flushed_evolves)

lemma step_evolves: "evolves st (step a st)"
  by (cases a) (auto intro: evolves.intros deliver_evolves handle_navigation_evolves)

lemma run_evolves: "evolves st (run acts st)"
  unfolding run_def
proof (induction acts rule: rev_induct)
  case Nil
  show ?case by (simp add: ev_refl)
next
  case (snoc a acts)
  then show ?case using step_evolves evolves_trans by fastforce
qed

section \<open>Deduplication\<close>

lemma handle_error_seen_mono: "seen_errors st \<subseteq> seen_errors (handle_error e err k d st)"
  by (auto simp: handle_error_def Let_def split: sum.splits pyval.splits)

lemma evolves_seen: "evolves st st' \<Longrightarrow> seen_errors st \<subseteq> seen_errors st'"
proof (induction rule: evolves.induct)
  case (ev_handle st st' e err k d)
  then show ?case using handle_error_seen_mono by blast
qed simp_all

lemma handle_error_written:
  "error_json (handle_error e err k d st) \<noteq> error_json st \<Longrightarrow>
   \<exists>sg. generate_error_signature k (py_str err) (detail_or_unknown d ''filename'')
          (detail_or_unknown d ''lineno'') (detail_or_unknown d ''colno'') = Inr sg \<and>
        sg \<in> seen_errors (handle_error e err k d st)"
  by (auto simp: handle_error_def Let_def split: sum.splits pyval.splits if_splits)

lemma handle_error_seen_noop:
  "generate_error_signature k (py_str err) (detail_or_unknown d ''filename'')
          (detail_or_unknown d ''lineno'') (detail_or_unknown d ''colno'') = Inr sg \<Longrightarrow>
   sg \<in> seen_errors st \<Longrightarrow> handle_error e err k d st = st"
  by (simp add: handle_error_def Let_def)

text \<open>
  Claim C1. Take two reports of a fault that share the message cut to 200 characters,
  the file name, the line and the column, on whatever channels and of whatever kinds.
  Once the first has put a record into the ledger, handling the second, after anything
  else the session did in between, changes nothing: no record is added, and the call
  returns (the function is total). So at most one record is written for the pair.
\<close>

theorem duplicate_is_noop:
  assumes key: "fault_key err1 d1 = fault_key err2 d2"
    and first: "s1 = handle_error e1 err1 k1 d1 st"
    and written: "error_json s1 \<noteq> error_json st"
    and later: "s2 = run acts s1"
  shows "handle_error e2 err2 k2 d2 s2 = s2"
proof -
  obtain sg where sg: "generate_error_signature k1 (py_str err1) (detail_or_unknown d1 ''filename'')
          (detail_or_unknown d1 ''lineno'') (detail_or_unknown d1 ''colno'') = Inr sg"
    and seen: "sg \<in> seen_errors s1"
    using handle_error_written written first by blast
  have cut: "take 200 (py_str err2) = take 200 (py_str err1)"
    and same: "detail_or_unknown d1 ''filename'' = detail_or_unknown d2 ''filename''"
      "detail_or_unknown d1 ''lineno'' = detail_or_unknown d2 ''lineno''"
      "detail_or_unknown d1 ''colno'' = detail_or_unknown d2 ''colno''"
    using key by (simp_all add: fault_key_def)
  have "generate_error_signature k2 (py_str err2) (detail_or_unknown d2 ''filename'')
          (detail_or_unknown d2 ''lineno'') (detail_or_unknown d2 ''colno'')
        = generate_error_signature k1 (py_str err1) (detail_or_unknown d2 ''filename'')
          (detail_or_unknown d2 ''lineno'') (detail_or_unknown d2 ''colno'')"
    by (rule signature_of_cut [OF cut])
  then have "generate_error_signature k2 (py_str err2) (detail_or_unknown d2 ''filename'')
          (detail_or_unknown d2 ''lineno'') (detail_or_unknown d2 ''colno'') = Inr sg"
    using sg same by simp
  moreover have "sg \<in> seen_errors s2"
    using seen later run_evolves evolves_seen by blast
  ultimately show ?thesis
    by (rule handle_error_seen_noop)
qed

theorem duplicate_is_noop_witness:
  "fault_key (PStr ''boom'')
       (Some [(''filename'', PStr ''app.js''), (''lineno'', PInt 3), (''colno'', PInt 7)])
     = fault_key (PStr ''boom'')
         (Some [(''filename'', PStr ''app.js''), (''lineno'', PInt 3), (''colno'', PInt 7),
                (''stack'', PStr ''at app.js:3:7'')]) \<and>
   error_json (handle_error \<lparr>now = ''t1'', write_ok = True\<rparr> (PStr ''boom'') (PStr ''console_error'')
       (Some [(''filename'', PStr ''app.js''), (''lineno'', PInt 3), (''colno'', PInt 7)])
       (start_session \<lparr>now = ''t0'', write_ok = True\<rparr> None))
     \<noteq> error_json (start_session \<lparr>now = ''t0'', write_ok = True\<rparr> None) \<and>
   handle_error \<lparr>now = ''t3'', write_ok = True\<rparr> (PStr ''boom'') (PStr ''promise_rejection'')
       (Some [(''filename'', PStr ''app.js''), (''lineno'', PInt 3), (''colno'', PInt 7),
              (''stack'', PStr ''at app.js:3:7'')])
       (run [PageMoved ''https://example.org/'']
          (handle_error \<lparr>now = ''t1'', write_ok = True\<rparr> (PStr ''boom'') (PStr ''console_error'')
             (Some [(''filename'', PStr ''app.js''), (''lineno'', PInt 3), (''colno'', PInt 7)])
             (start_session \<lparr>now = ''t0'', write_ok = True\<rparr> None)))
     = run [PageMoved ''https://example.org/'']
         (handle_error \<lparr>now = ''t1'', write_ok = True\<rparr> (PStr ''boom'') (PStr ''console_error'')
            (Some [(''filename'', PStr ''app.js''), (''lineno'', PInt 3), (''colno'', PInt 7)])
            (start_session \<lparr>now = ''t0'', write_ok = True\<rparr> None))"
proof -
  have key: "fault_key (PStr ''boom'')
       (Some [(''filename'', PStr ''app.js''), (''lineno'', PInt 3), (''colno'', PInt 7)])
     = fault_key (PStr ''boom'')
         (Some [(''filename'', PStr ''app.js''), (''lineno'', PInt 3), (''colno'', PInt 7),
                (''stack'', PStr ''at app.js:3:7'')])"
    by (simp add: fault_key_def detail_or_unknown_def dict_get_def)
  have written: "error_json (handle_error \<lparr>now = ''t1'', write_ok = True\<rparr> (PStr ''boom'')
       (PStr ''console_error'')
       (Some [(''filename'', PStr ''app.js''), (''lineno'', PInt 3), (''colno'', PInt 7)])
       (start_session \<lparr>now = ''t0'', write_ok = True\<rparr> None))
     \<noteq> error_json (start_session \<lparr>now = ''t0'', write_ok = True\<rparr> None)"
    by (simp add: handle_error_def start_session_def initialize_error_json_def
          generate_error_signature_def signature_parts_def detail_or_unknown_def dict_get_def
          found_in_json_def save_error_to_json_def Let_def)
  from duplicate_is_noop [OF key refl written refl] key written
  show ?thesis by blast
qed

section \<open>Dictionaries\<close>

lemma map_of_dict_set: "map_of (dict_set k v d) = (map_of d)(k \<mapsto> v)"
  by (induction d) auto

lemma dict_get_dict_set:
  "dict_get (dict_set k v d) k' x = (if k' = k then v else dict_get d k' x)"
  by (simp add: dict_get_def map_of_dict_set)

lemma dict_get_empty: "dict_get [] k x = x"
  by (simp add: dict_get_def)

lemma dict_set_not_empty [simp]: "dict_set k v d \<noteq> []"
  by (cases d) auto

section \<open>The count of the ledger\<close>

lemma save_counts:
  assumes "write_ok e"
  shows "\<exists>l. save_error_to_json e detail file = Some l \<and> counts_agree l \<and>
             errors l = (case file of None \<Rightarrow> [] | Some l0 \<Rightarrow> errors l0) @ [detail]"
  using assms
  by (auto simp: save_error_to_json_def Let_def counts_agree_def map_of_dict_set
           split: option.splits)

lemma save_failed: "\<not> write_ok e \<Longrightarrow> save_error_to_json e detail file = file"
  by (simp add: save_error_to_json_def)

lemma handle_error_ledger:
  assumes "error_json st = Some l0"
  shows "error_json (handle_error e err k d st) = Some l0 \<or>
         (\<exists>l x. error_json (handle_error e err k d st) = Some l \<and> errors l = errors l0 @ [x] \<and>
                counts_agree l)"
proof (cases "write_ok e")
  case True
  have "\<exists>l. save_error_to_json e x (Some l0) = Some l \<and> errors l = errors l0 @ [x] \<and>
            counts_agree l" for x
    using save_counts [OF True, of x "Some l0"] by auto
  then show ?thesis using assms
    by (auto simp: handle_error_def Let_def split: sum.splits pyval.splits)
next
  case False
  then show ?thesis using assms
    by (auto simp: handle_error_def Let_def save_failed split: sum.splits pyval.splits)
qed

lemma accepted_total:
  assumes "error_json st = Some l0"
  shows "\<exists>l. error_json (foldl (\<lambda>s c. handle_call c s) st calls) = Some l \<and>
             length (errors l) = length (errors l0) + accepted calls st \<and>
             (counts_agree l0 \<or> 0 < accepted calls st \<longrightarrow> counts_agree l)"
  using assms
proof (induction calls arbitrary: st l0)
  case Nil
  then show ?case by simp
next
  case (Cons c calls)
  obtain e err k d where c: "c = (e, err, k, d)"
    by (cases c) auto
  let ?st' = "handle_call c st"
  from handle_error_ledger [OF Cons.prems, of e err k d]
  consider (same) "error_json ?st' = Some l0"
    | (more) l x where "error_json ?st' = Some l" "errors l = errors l0 @ [x]" "counts_agree l"
    using c by auto
  then show ?case
  proof cases
    case same
    with Cons.IH [OF same] Cons.prems show ?thesis
      by simp
  next
    case more
    then have diff: "error_json ?st' \<noteq> error_json st"
      using Cons.prems by auto
    from Cons.IH [OF more(1)] more(2,3) diff show ?thesis
      by auto
  qed
qed

text \<open>
  Claim C5, as amended. Every write that accepts a record leaves a ledger whose
  \<open>total_errors\<close> is there and equals the length of \<open>errors\<close>; and in a session that
  starts from an empty ledger, after the calls of which \<open>N\<close> were accepted the ledger
  holds \<open>N\<close> records, and for \<open>N > 0\<close> its \<open>total_errors\<close> is \<open>N\<close>. The write that
  initializes the ledger is not covered: it stores an empty list and no \<open>total_errors\<close>
  at all.
\<close>

theorem ledger_counts_after_accept:
  "(write_ok e \<longrightarrow> (\<exists>l. save_error_to_json e detail old = Some l \<and> counts_agree l)) \<and>
   (write_ok e \<longrightarrow>
      (\<exists>l. initialize_error_json e old = Some l \<and> errors l = [] \<and>
           map_of (session_info l) ''total_errors'' = None)) \<and>
   (error_json st = Some l0 \<and> errors l0 = [] \<longrightarrow>
      (\<exists>l. error_json (foldl (\<lambda>s c. handle_call c s) st calls) = Some l \<and>
           length (errors l) = accepted calls st \<and>
           (0 < accepted calls st \<longrightarrow> counts_agree l)))"
proof -
  have "\<exists>l. error_json (foldl (\<lambda>s c. handle_call c s) st calls) = Some l \<and>
           length (errors l) = accepted calls st \<and>
           (0 < accepted calls st \<longrightarrow> counts_agree l)"
    if "error_json st = Some l0" "errors l0 = []"
    using accepted_total [OF that(1), of calls] that(2) by auto
  moreover have "\<exists>l. initialize_error_json e old = Some l \<and> errors l = [] \<and>
           map_of (session_info l) ''total_errors'' = None" if "write_ok e"
    using that by (simp add: initialize_error_json_def)
  ultimately show ?thesis
    using save_counts by blast
qed

text \<open>
  The claim as stated fails at the first write of a session: the fresh ledger has an
  empty list and no \<open>total_errors\<close>.
\<close>

theorem initial_ledger_has_no_count:
  "errors (the (error_json (start_session \<lparr>now = ''t0'', write_ok = True\<rparr> None))) = [] \<and>
   map_of (session_info (the (error_json (start_session \<lparr>now = ''t0'', write_ok = True\<rparr> None))))
     ''total_errors'' = None \<and>
   \<not> counts_agree (the (error_json (start_session \<lparr>now = ''t0'', write_ok = True\<rparr> None)))"
  by (simp add: start_session_def initialize_error_json_def counts_agree_def)

theorem ledger_counts_after_accept_witness:
  "write_ok \<lparr>now = ''t1'', write_ok = True\<rparr> \<and>
   (\<exists>l. save_error_to_json \<lparr>now = ''t1'', write_ok = True\<rparr> [(''error_message'', PStr ''boom'')] None
          = Some l \<and> counts_agree l) \<and>
   (\<exists>l. initialize_error_json \<lparr>now = ''t1'', write_ok = True\<rparr> None = Some l \<and> errors l = [] \<and>
        map_of (session_info l) ''total_errors'' = None) \<and>
   error_json (start_session \<lparr>now = ''t0'', write_ok = True\<rparr> None)
     = Some (the (error_json (start_session \<lparr>now = ''t0'', write_ok = True\<rparr> None))) \<and>
   errors (the (error_json (start_session \<lparr>now = ''t0'', write_ok = True\<rparr> None))) = [] \<and>
   0 < accepted [(\<lparr>now = ''t1'', write_ok = True\<rparr>, PStr ''boom'', PStr ''console_error'', None)]
         (start_session \<lparr>now = ''t0'', write_ok = True\<rparr> None) \<and>
   (\<exists>l. error_json (foldl (\<lambda>s c. handle_call c s)
             (start_session \<lparr>now = ''t0'', write_ok = True\<rparr> None)
             [(\<lparr>now = ''t1'', write_ok = True\<rparr>, PStr ''boom'', PStr ''console_error'', None)])
          = Some l \<and>
        length (errors l)
          = accepted [(\<lparr>now = ''t1'', write_ok = True\<rparr>, PStr ''boom'', PStr ''console_error'', None)]
              (start_session \<lparr>now = ''t0'', write_ok = True\<rparr> None) \<and>
        (0 < accepted [(\<lparr>now = ''t1'', write_ok = True\<rparr>, PStr ''boom'', PStr ''console_error'', None)]
               (start_session \<lparr>now = ''t0'', write_ok = True\<rparr> None)
         \<longrightarrow> counts_agree l))"
proof -
  have w: "write_ok \<lparr>now = ''t1'', write_ok = True\<rparr>"
    by simp
  have s: "error_json (start_session \<lparr>now = ''t0'', write_ok = True\<rparr> None)
     = Some (the (error_json (start_session \<lparr>now = ''t0'', write_ok = True\<rparr> None)))"
    and e: "errors (the (error_json (start_session \<lparr>now = ''t0'', write_ok = True\<rparr> None))) = []"
    by (simp_all add: start_session_def initialize_error_json_def)
  have a: "0 < accepted [(\<lparr>now = ''t1'', write_ok = True\<rparr>, PStr ''boom'', PStr ''console_error'', None)]
         (start_session \<lparr>now = ''t0'', write_ok = True\<rparr> None)"
    by (simp add: handle_error_def start_session_def initialize_error_json_def
          generate_error_signature_def signature_parts_def detail_or_unknown_def
          found_in_json_def save_error_to_json_def Let_def)
  from ledger_counts_after_accept
         [where e = "\<lparr>now = ''t1'', write_ok = True\<rparr>"
            and detail = "[(''error_message'', PStr ''boom'')]" and old = None
            and st = "start_session \<lparr>now = ''t0'', write_ok = True\<rparr> None"
            and ?l0.0 = "the (error_json (start_session \<lparr>now = ''t0'', write_ok = True\<rparr> None))"
            and calls = "[(\<lparr>now = ''t1'', write_ok = True\<rparr>, PStr ''boom'', PStr ''console_error'', None)]"]
       w s e a
  show ?thesis by blast
qed

section \<open>Line 0, line \<open>None\<close> and no line\<close>

lemma falsy_part:
  "\<not> truthy l1 \<Longrightarrow> \<not> truthy l2 \<Longrightarrow>
   generate_error_signature k1 m f l1 c = generate_error_signature k2 m f l2 c"
  "\<not> truthy c1 \<Longrightarrow> \<not> truthy c2 \<Longrightarrow>
   generate_error_signature k1 m f l c1 = generate_error_signature k2 m f l c2"
  by (simp_all add: generate_error_signature_def signature_parts_def)

lemma same_signature_noop:
  assumes same: "generate_error_signature k1 (py_str err1) (detail_or_unknown d1 ''filename'')
                   (detail_or_unknown d1 ''lineno'') (detail_or_unknown d1 ''colno'')
                 = generate_error_signature k2 (py_str err2) (detail_or_unknown d2 ''filename'')
                     (detail_or_unknown d2 ''lineno'') (detail_or_unknown d2 ''colno'')"
    and written: "error_json (handle_error e1 err1 k1 d1 st) \<noteq> error_json st"
  shows "handle_error e2 err2 k2 d2 (run acts (handle_error e1 err1 k1 d1 st))
           = run acts (handle_error e1 err1 k1 d1 st)"
proof -
  obtain sg where sg: "generate_error_signature k1 (py_str err1) (detail_or_unknown d1 ''filename'')
          (detail_or_unknown d1 ''lineno'') (detail_or_unknown d1 ''colno'') = Inr sg"
    and seen: "sg \<in> seen_errors (handle_error e1 err1 k1 d1 st)"
    using handle_error_written written by blast
  have "sg \<in> seen_errors (run acts (handle_error e1 err1 k1 d1 st))"
    using seen run_evolves evolves_seen by blast
  with sg same show ?thesis
    by (simp add: handle_error_seen_noop)
qed

lemma line_only_differs:
  "detail_or_unknown (Some (dict_set ''lineno'' v d)) ''lineno'' = v"
  "detail_or_unknown (Some (dict_set ''lineno'' v d)) ''filename''
     = dict_get d ''filename'' (PStr ''Unknown'')"
  "detail_or_unknown (Some (dict_set ''lineno'' v d)) ''colno''
     = dict_get d ''colno'' (PStr ''Unknown'')"
  by (simp_all add: detail_or_unknown_def dict_get_dict_set)

text \<open>
  Claim C10, as amended. In the signature a line or column of 0 counts as the line or
  column \<open>None\<close>: both contribute the empty string. So two reports whose details differ
  only in carrying line 0 and line \<open>None\<close> have one signature, and once either has been
  recorded the other is a no-op. A report whose details carry no line at all is another
  matter: \<open>handle_error\<close> reads its line as the string \<open>Unknown\<close>.
\<close>

theorem zero_line_is_none_line:
  "generate_error_signature k m f (PInt 0) c = generate_error_signature k m f PNone c \<and>
   generate_error_signature k m f l (PInt 0) = generate_error_signature k m f l PNone \<and>
   (error_json (handle_error e1 err k1 (Some (dict_set ''lineno'' (PInt 0) d)) st) \<noteq> error_json st
      \<longrightarrow> handle_error e2 err k2 (Some (dict_set ''lineno'' PNone d))
            (run acts (handle_error e1 err k1 (Some (dict_set ''lineno'' (PInt 0) d)) st))
          = run acts (handle_error e1 err k1 (Some (dict_set ''lineno'' (PInt 0) d)) st)) \<and>
   (error_json (handle_error e1 err k1 (Some (dict_set ''lineno'' PNone d)) st) \<noteq> error_json st
      \<longrightarrow> handle_error e2 err k2 (Some (dict_set ''lineno'' (PInt 0) d))
            (run acts (handle_error e1 err k1 (Some (dict_set ''lineno'' PNone d)) st))
          = run acts (handle_error e1 err k1 (Some (dict_set ''lineno'' PNone d)) st)) \<and>
   (map_of d ''lineno'' = None \<longrightarrow> detail_or_unknown (Some d) ''lineno'' = PStr ''Unknown'')"
proof (intro conjI impI)
  show "generate_error_signature k m f (PInt 0) c = generate_error_signature k m f PNone c"
    by (rule falsy_part) simp_all
  show "generate_error_signature k m f l (PInt 0) = generate_error_signature k m f l PNone"
    by (rule falsy_part) simp_all
  show "handle_error e2 err k2 (Some (dict_set ''lineno'' PNone d))
            (run acts (handle_error e1 err k1 (Some (dict_set ''lineno'' (PInt 0) d)) st))
          = run acts (handle_error e1 err k1 (Some (dict_set ''lineno'' (PInt 0) d)) st)"
    if "error_json (handle_error e1 err k1 (Some (dict_set ''lineno'' (PInt 0) d)) st)
          \<noteq> error_json st"
    by (rule same_signature_noop [OF _ that]) (simp add: line_only_differs falsy_part)
  show "handle_error e2 err k2 (Some (dict_set ''lineno'' (PInt 0) d))
            (run acts (handle_error e1 err k1 (Some (dict_set ''lineno'' PNone d)) st))
          = run acts (handle_error e1 err k1 (Some (dict_set ''lineno'' PNone d)) st)"
    if "error_json (handle_error e1 err k1 (Some (dict_set ''lineno'' PNone d)) st)
          \<noteq> error_json st"
    by (rule same_signature_noop [OF _ that]) (simp add: line_only_differs falsy_part)
  show "detail_or_unknown (Some d) ''lineno'' = PStr ''Unknown''" if "map_of d ''lineno'' = None"
    using that by (simp add: detail_or_unknown_def dict_get_def)
qed

text \<open>
  The claim as stated fails for a report with no line at all: next to a report of the
  same fault at line 0 it gets another signature, and both are recorded.
\<close>

theorem no_line_is_not_zero_line:
  "generate_error_signature (PStr ''unhandled_error'') ''e'' (PStr ''app.js'') (PInt 0) (PInt 5)
     \<noteq> generate_error_signature (PStr ''unhandled_error'') ''e'' (PStr ''app.js'')
         (detail_or_unknown (Some [(''filename'', PStr ''app.js''), (''colno'', PInt 5)]) ''lineno'')
         (PInt 5) \<and>
   length (errors (the (error_json
     (handle_error \<lparr>now = ''t2'', write_ok = True\<rparr> (PStr ''e'') (PStr ''unhandled_error'')
        (Some [(''filename'', PStr ''app.js''), (''colno'', PInt 5)])
        (handle_error \<lparr>now = ''t1'', write_ok = True\<rparr> (PStr ''e'') (PStr ''unhandled_error'')
           (Some [(''filename'', PStr ''app.js''), (''lineno'', PInt 0), (''colno'', PInt 5)])
           (start_session \<lparr>now = ''t0'', write_ok = True\<rparr> None)))))) = 2"
  by code_simp

theorem zero_line_is_none_line_witness:
  "error_json (handle_error \<lparr>now = ''t1'', write_ok = True\<rparr> (PStr ''e'') (PStr ''unhandled_error'')
       (Some (dict_set ''lineno'' (PInt 0) [(''filename'', PStr ''app.js''), (''colno'', PInt 5)]))
       (start_session \<lparr>now = ''t0'', write_ok = True\<rparr> None))
     \<noteq> error_json (start_session \<lparr>now = ''t0'', write_ok = True\<rparr> None) \<and>
   handle_error \<lparr>now = ''t2'', write_ok = True\<rparr> (PStr ''e'') (PStr ''custom_error'')
       (Some (dict_set ''lineno'' PNone [(''filename'', PStr ''app.js''), (''colno'', PInt 5)]))
       (run [] (handle_error \<lparr>now = ''t1'', write_ok = True\<rparr> (PStr ''e'') (PStr ''unhandled_error'')
       (Some (dict_set ''lineno'' (PInt 0) [(''filename'', PStr ''app.js''), (''colno'', PInt 5)]))
       (start_session \<lparr>now = ''t0'', write_ok = True\<rparr> None)))
     = run [] (handle_error \<lparr>now = ''t1'', write_ok = True\<rparr> (PStr ''e'') (PStr ''unhandled_error'')
       (Some (dict_set ''lineno'' (PInt 0) [(''filename'', PStr ''app.js''), (''colno'', PInt 5)]))
       (start_session \<lparr>now = ''t0'', write_ok = True\<rparr> None)) \<and>
   error_json (handle_error \<lparr>now = ''t1'', write_ok = True\<rparr> (PStr ''e'') (PStr ''unhandled_error'')
       (Some (dict_set ''lineno'' PNone [(''filename'', PStr ''app.js''), (''colno'', PInt 5)]))
       (start_session \<lparr>now = ''t0'', write_ok = True\<rparr> None))
     \<noteq> error_json (start_session \<lparr>now = ''t0'', write_ok = True\<rparr> None) \<and>
   handle_error \<lparr>now = ''t2'', write_ok = True\<rparr> (PStr ''e'') (PStr ''custom_error'')
       (Some (dict_set ''lineno'' (PInt 0) [(''filename'', PStr ''app.js''), (''colno'', PInt 5)]))
       (run [] (handle_error \<lparr>now = ''t1'', write_ok = True\<rparr> (PStr ''e'') (PStr ''unhandled_error'')
       (Some (dict_set ''lineno'' PNone [(''filename'', PStr ''app.js''), (''colno'', PInt 5)]))
       (start_session \<lparr>now = ''t0'', write_ok = True\<rparr> None)))
     = run [] (handle_error \<lparr>now = ''t1'', write_ok = True\<rparr> (PStr ''e'') (PStr ''unhandled_error'')
       (Some (dict_set ''lineno'' PNone [(''filename'', PStr ''app.js''), (''colno'', PInt 5)]))
       (start_session \<lparr>now = ''t0'', write_ok = True\<rparr> None)) \<and>
   map_of [(''filename'', PStr ''app.js''), (''colno'', PInt 5)] ''lineno'' = None \<and>
   detail_or_unknown (Some [(''filename'', PStr ''app.js''), (''colno'', PInt 5)]) ''lineno''
     = PStr ''Unknown''"
proof -
  have zero_first: "error_json (handle_error \<lparr>now = ''t1'', write_ok = True\<rparr> (PStr ''e'') (PStr ''unhandled_error'')
       (Some (dict_set ''lineno'' (PInt 0) [(''filename'', PStr ''app.js''), (''colno'', PInt 5)]))
       (start_session \<lparr>now = ''t0'', write_ok = True\<rparr> None))
     \<noteq> error_json (start_session \<lparr>now = ''t0'', write_ok = True\<rparr> None)"
    by (simp add: handle_error_def start_session_def initialize_error_json_def
          generate_error_signature_def signature_parts_def detail_or_unknown_def dict_get_def
          found_in_json_def save_error_to_json_def Let_def)
  have none_first: "error_json (handle_error \<lparr>now = ''t1'', write_ok = True\<rparr> (PStr ''e'') (PStr ''unhandled_error'')
       (Some (dict_set ''lineno'' PNone [(''filename'', PStr ''app.js''), (''colno'', PInt 5)]))
       (start_session \<lparr>now = ''t0'', write_ok = True\<rparr> None))
     \<noteq> error_json (start_session \<lparr>now = ''t0'', write_ok = True\<rparr> None)"
    by (simp add: handle_error_def start_session_def initialize_error_json_def
          generate_error_signature_def signature_parts_def detail_or_unknown_def dict_get_def
          found_in_json_def save_error_to_json_def Let_def)
  have absent: "map_of [(''filename'', PStr ''app.js''), (''colno'', PInt 5)] ''lineno'' = None"
    by simp
  from zero_line_is_none_line
         [where ?e1.0 = "\<lparr>now = ''t1'', write_ok = True\<rparr>" and ?e2.0 = "\<lparr>now = ''t2'', write_ok = True\<rparr>"
            and err = "PStr ''e''" and ?k1.0 = "PStr ''unhandled_error''" and ?k2.0 = "PStr ''custom_error''"
            and d = "[(''filename'', PStr ''app.js''), (''colno'', PInt 5)]"
            and st = "start_session \<lparr>now = ''t0'', write_ok = True\<rparr> None" and acts = "[]"]
       zero_first none_first absent
  show ?thesis by blast
qed

section \<open>What a call of the pipeline leaves alone\<close>

lemma handle_error_other_fields [simp]:
  "page_url (handle_error e err k d st) = page_url st"
  "navigation_in_progress (handle_error e err k d st) = navigation_in_progress st"
  "navigation_errors (handle_error e err k d st) = navigation_errors st"
  "current_element_info (handle_error e err k d st) = current_element_info st"
  by (auto simp: handle_error_def Let_def split: sum.splits pyval.splits)

lemma deliver_page_url [simp]: "page_url (deliver a st) = page_url st"
proof (cases a)
  case (Pair e arr)
  then show ?thesis
    by (cases arr)
       (simp_all add: on_page_error_def on_console_def on_promise_rejection_def
          on_custom_error_def Let_def)
qed

lemma deliver_all_page_url [simp]: "page_url (foldl (\<lambda>s a. deliver a s) st as) = page_url st"
  by (induction as arbitrary: st) simp_all

lemma handle_all_page_url [simp]:
  "page_url (foldl (\<lambda>s x. handle_error e (f x) k (g x) s) st xs) = page_url st"
  by (induction xs arbitrary: st) simp_all

lemma navigation_flushed_page_url [simp]: "page_url (navigation_flushed n u i st) = page_url st"
  by (simp add: navigation_flushed_def navigation_waited_def flush_navigation_errors_def Let_def)

section \<open>The parser on some URLs\<close>

text \<open>
  The network location of a page of the site, of a relative link, of a URL behind a
  space, and of URLs with brackets: a well-formed IPv6 host is kept, a bracket without
  its partner and an IPv4 address in brackets make the parser raise. On such a URL
  \<open>_extract_domain\<close> answers the URL itself and \<open>_is_external_link\<close> answers \<open>False\<close>.
\<close>

lemma urlparse_netloc_examples:
  "urlparse_netloc ''https://add-cwv-check--bbird--aemsites.aem.page/docs?x=1#top''
     = Inr ''add-cwv-check--bbird--aemsites.aem.page'' \<and>
   urlparse_netloc ''/docs'' = Inr [] \<and>
   urlparse_netloc ''mailto:someone@example.com'' = Inr [] \<and>
   urlparse_netloc '' https://evil.example/x'' = Inr ''evil.example'' \<and>
   urlparse_netloc [CHR ''h'', CHR ''t'', CHR 0x09, CHR ''t'', CHR ''p'', CHR '':'', CHR ''/'',
                    CHR 0x0A, CHR ''/'', CHR ''a'', CHR ''.'', CHR ''b'', CHR ''/'', CHR ''c'']
     = Inr ''a.b'' \<and>
   urlparse_netloc ''http://user@[fe80::1%eth0]:8080/x'' = Inr ''user@[fe80::1%eth0]:8080'' \<and>
   urlparse_netloc ''http://[::ffff:192.0.2.1]/'' = Inr ''[::ffff:192.0.2.1]'' \<and>
   urlparse_netloc ''http://[v1.x]/'' = Inr ''[v1.x]'' \<and>
   urlparse_netloc ''http://[::1/x'' = Inl ValueError \<and>
   urlparse_netloc ''http://::1]/x'' = Inl ValueError \<and>
   urlparse_netloc ''http://[192.0.2.1]/x'' = Inl ValueError \<and>
   urlparse_netloc ''http://[1:2:3]/x'' = Inl ValueError \<and>
   urlparse_netloc ''http://[example.com]/x'' = Inl ValueError"
  by code_simp

lemma unparsable_url_examples:
  "extract_domain ''http://[::1/x'' = ''http://[::1/x'' \<and>
   is_external_link ''http://[::1/x'' ''add-cwv-check--bbird--aemsites.aem.page'' = False \<and>
   is_external_link '' https://evil.example/x'' ''add-cwv-check--bbird--aemsites.aem.page'' = True \<and>
   is_external_link ''https://evil.example/x'' ''add-cwv-check--bbird--aemsites.aem.page'' = True \<and>
   is_external_link ''/docs'' ''add-cwv-check--bbird--aemsites.aem.page'' = False \<and>
   extract_domain original_url = ''add-cwv-check--bbird--aemsites.aem.page''"
  by code_simp

section \<open>The five methods\<close>

lemma try_goto_ok: "returned_ok p \<Longrightarrow> returned_ok (try_goto a p)"
  by (auto simp: returned_ok_def try_goto_def split: attempt.splits)

lemma try_reload_ok: "returned_ok p \<Longrightarrow> returned_ok (try_reload a p)"
  by (auto simp: returned_ok_def try_reload_def split: attempt.splits)

lemma return_domain:
  "snd (return_to_original n url) \<Longrightarrow>
   extract_domain (fst (return_to_original n url)) = extract_domain original_url"
proof -
  have "returned_ok (url, False)" by (simp add: returned_ok_def)
  then have "returned_ok (return_to_original n url)"
    unfolding return_to_original_def by (intro try_goto_ok try_reload_ok)
  then show "snd (return_to_original n url) \<Longrightarrow>
   extract_domain (fst (return_to_original n url)) = extract_domain original_url"
    by (simp add: returned_ok_def)
qed

lemma return_not_origin:
  assumes "snd (return_to_original n url)"
    and "fst (return_to_original n url) \<noteq> original_url"
  shows "nv_reload2 n = Completes \<and> (\<exists>u. nv_goto1 n = Raises u \<and> fst (return_to_original n url) = u)"
  using assms
  by (auto simp: return_to_original_def try_goto_def try_reload_def split: attempt.splits if_splits)

lemma return_first:
  "nv_goto1 n = Completes \<Longrightarrow> return_to_original n url = (original_url, True)"
  by (simp add: return_to_original_def try_goto_def try_reload_def)

section \<open>Settled reports\<close>

lemma found_in_json_mono:
  "found_in_json (error_json st) m f l \<Longrightarrow> found_in_json (error_json (handle_error e err k d st)) m f l"
proof -
  assume found: "found_in_json (error_json st) m f l"
  then obtain l0 where l0: "error_json st = Some l0"
    by (auto simp: found_in_json_def split: option.splits)
  from handle_error_ledger [OF l0, of e err k d] found l0 show ?thesis
    by (auto simp: found_in_json_def list_ex_iff)
qed

lemma settled_handle_error:
  "settled st t x \<Longrightarrow> settled (handle_error e err k d st) t x"
  using handle_error_seen_mono [of st e err k d] found_in_json_mono [of st _ _ _ e err k d]
  by (auto simp: settled_def split: sum.splits)

lemma settled_cong:
  "seen_errors a = seen_errors b \<Longrightarrow> error_json a = error_json b \<Longrightarrow>
   settled a t x = settled b t x"
  by (simp add: settled_def split: sum.splits)

lemma evolves_settled: "evolves st st' \<Longrightarrow> settled st t x \<Longrightarrow> settled st' t x"
proof (induction rule: evolves.induct)
  case (ev_refl st)
  then show ?case by simp
next
  case (ev_handle st st' e err k d)
  then show ?case by (simp add: settled_handle_error)
next
  case (ev_buffer st st' b)
  have "settled (st'\<lparr>navigation_errors := b\<rparr>) t x = settled st' t x"
    by (rule settled_cong) simp_all
  with ev_buffer show ?case by simp
next
  case (ev_flag st st' f)
  have "settled (st'\<lparr>navigation_in_progress := f\<rparr>) t x = settled st' t x"
    by (rule settled_cong) simp_all
  with ev_flag show ?case by simp
next
  case (ev_url st st' u)
  have "settled (st'\<lparr>page_url := u\<rparr>) t x = settled st' t x"
    by (rule settled_cong) simp_all
  with ev_url show ?case by simp
qed

lemma kind_irrelevant:
  "generate_error_signature k1 m f l c = generate_error_signature k2 m f l c"
  by (simp add: generate_error_signature_def)

lemma handled_is_settled: "settled (handle_error e (PStr t) k (Some x) st) t x"
proof -
  let ?F = "detail_or_unknown (Some x) ''filename''"
  let ?L = "detail_or_unknown (Some x) ''lineno''"
  let ?C = "detail_or_unknown (Some x) ''colno''"
  have kind: "generate_error_signature PNone t ?F ?L ?C = generate_error_signature k t ?F ?L ?C"
    by (rule kind_irrelevant)
  show ?thesis
  proof (cases "generate_error_signature k t ?F ?L ?C")
    case (Inl ex)
    then show ?thesis using kind by (simp add: settled_def)
  next
    case (Inr sg)
    consider (seen) "sg \<in> seen_errors st"
      | (found) "sg \<notin> seen_errors st" "found_in_json (error_json st) t ?F ?L"
      | (new) "sg \<notin> seen_errors st" "\<not> found_in_json (error_json st) t ?F ?L"
      by blast
    then show ?thesis
    proof cases
      case seen
      then have "handle_error e (PStr t) k (Some x) st = st"
        using Inr by (simp add: handle_error_def Let_def)
      then show ?thesis using seen Inr kind by (simp add: settled_def)
    next
      case found
      then have "handle_error e (PStr t) k (Some x) st = st"
        using Inr by (simp add: handle_error_def Let_def)
      then show ?thesis using found Inr kind by (simp add: settled_def)
    next
      case new
      then have "sg \<in> seen_errors (handle_error e (PStr t) k (Some x) st)"
        using Inr by (cases k) (simp_all add: handle_error_def Let_def)
      then show ?thesis using Inr kind by (simp add: settled_def)
    qed
  qed
qed

lemma handle_all_settled:
  "b \<in> set bs \<Longrightarrow>
   settled (foldl (\<lambda>s x. handle_error e (PStr (ne_error x)) k (Some (ne_details x)) s) st bs)
     (ne_error b) (ne_details b)"
proof (induction bs arbitrary: st)
  case Nil
  then show ?case by simp
next
  case (Cons x bs)
  show ?case
  proof (cases "b = x")
    case True
    have "settled (handle_error e (PStr (ne_error x)) k (Some (ne_details x)) st)
            (ne_error x) (ne_details x)"
      by (rule handled_is_settled)
    then have "settled (foldl (\<lambda>s x. handle_error e (PStr (ne_error x)) k (Some (ne_details x)) s)
                 (handle_error e (PStr (ne_error x)) k (Some (ne_details x)) st) bs)
            (ne_error x) (ne_details x)"
      by (rule evolves_settled [OF handle_all_evolves])
    then show ?thesis
      using True by simp
  next
    case False
    with Cons show ?thesis by simp
  qed
qed

lemma flush_details_key:
  assumes "k \<noteq> ''navigation_url''" "k \<noteq> ''element_that_caused_navigation''"
  shows "detail_or_unknown (Some (ne_details (flush_details u i b))) k
           = detail_or_unknown (Some (ne_details b)) k"
proof (cases "ne_details b = []")
  case True
  then show ?thesis using assms
    by (simp add: flush_details_def detail_or_unknown_def dict_get_def)
next
  case False
  then show ?thesis using assms
    by (simp add: flush_details_def detail_or_unknown_def dict_get_dict_set)
qed

lemma settled_flush_details:
  "settled st (ne_error (flush_details u i b)) (ne_details (flush_details u i b))
     = settled st (ne_error b) (ne_details b)"
proof -
  have "ne_error (flush_details u i b) = ne_error b"
    by (simp add: flush_details_def)
  then show ?thesis
    by (simp add: settled_def flush_details_key cong: sum.case_cong)
qed

lemma flush_settles:
  assumes "b \<in> set (navigation_errors st)"
  shows "settled (flush_navigation_errors e u i st) (ne_error b) (ne_details b)"
proof -
  have "flush_details u i b \<in> set (map (flush_details u i) (navigation_errors st))"
    using assms by simp
  from handle_all_settled [OF this]
  show ?thesis
    unfolding flush_navigation_errors_def Let_def settled_flush_details .
qed

section \<open>Events that arrive during a navigation\<close>

lemma handle_error_buffer_update:
  "handle_error e err k d (st\<lparr>navigation_errors := b\<rparr>)
     = (handle_error e err k d st)\<lparr>navigation_errors := b\<rparr>"
  by (auto simp: handle_error_def Let_def split: sum.splits pyval.splits)

lemma add_code_context_keeps:
  "k \<noteq> ''code_context'' \<Longrightarrow> dict_get (add_code_context fetched d) k x = dict_get d k x"
  by (auto simp: add_code_context_def dict_get_dict_set split: option.splits)

lemma arrival_details_tagged:
  "dict_get (arrival_details st ev) ''navigation_context'' PNone = PBool True"
  "dict_get (arrival_details st ev) ''navigation_url'' PNone = PStr (page_url st)"
  by (simp_all add: arrival_details_def add_code_context_keeps tag_navigation_def
        dict_get_dict_set)

text \<open>
  Claim C3, as amended. A page error or a console error that arrives while a navigation
  is in progress is tagged with the navigation context and appended to the buffer, and
  in the same call it is handed to \<open>handle_error\<close> with the tagged details: the state
  after the listener is the state after \<open>handle_error\<close>, with the buffer one entry
  longer. A promise rejection and a custom event are handed to \<open>handle_error\<close> too: the
  state after the listener is the state after the call of \<open>handle_error\<close> with the
  message of the event, its kind, and its details, to which the listener has added the
  code context and no navigation tag; the buffer stays as it is.
\<close>

theorem arrival_during_navigation:
  assumes "navigation_in_progress st"
  shows "dict_get (arrival_details st ev) ''navigation_context'' PNone = PBool True \<and>
         dict_get (arrival_details st ev) ''navigation_url'' PNone = PStr (page_url st) \<and>
         on_page_error e ev st
           = (handle_error e (PStr (ev_text ev)) (PStr ''page_error'')
                (Some (arrival_details st ev)) st)
               \<lparr>navigation_errors := navigation_errors st @
                   [\<lparr>ne_error = ev_text ev, ne_details = arrival_details st ev,
                     ne_timestamp = now e\<rparr>]\<rparr> \<and>
         on_console e ''error'' ev st
           = (handle_error e (PStr (ev_text ev)) (PStr ''console_error'')
                (Some (arrival_details st ev)) st)
               \<lparr>navigation_errors := navigation_errors st @
                   [\<lparr>ne_error = ev_text ev, ne_details = arrival_details st ev,
                     ne_timestamp = now e\<rparr>]\<rparr> \<and>
         navigation_errors (on_promise_rejection e ev st) = navigation_errors st \<and>
         navigation_errors (on_custom_error e ev st) = navigation_errors st \<and>
         on_promise_rejection e ev st
           = handle_error e (PStr (ev_text ev)) (PStr ''promise_rejection'')
               (Some (add_code_context (ev_fetched ev) (ev_details ev))) st \<and>
         on_custom_error e ev st
           = handle_error e
               (dict_get (ev_details ev) ''message''
                  (dict_get (ev_details ev) ''reason'' (PStr (ev_text ev))))
               (dict_get (ev_details ev) ''type'' (PStr ''custom_error''))
               (Some (add_code_context (ev_fetched ev) (ev_details ev))) st \<and>
         dict_get (add_code_context (ev_fetched ev) (ev_details ev)) ''navigation_context'' PNone
           = dict_get (ev_details ev) ''navigation_context'' PNone \<and>
         dict_get (add_code_context (ev_fetched ev) (ev_details ev)) ''navigation_url'' PNone
           = dict_get (ev_details ev) ''navigation_url'' PNone"
proof -
  have "on_page_error e ev st
           = (handle_error e (PStr (ev_text ev)) (PStr ''page_error'')
                (Some (arrival_details st ev)) st)
               \<lparr>navigation_errors := navigation_errors st @
                   [\<lparr>ne_error = ev_text ev, ne_details = arrival_details st ev,
                     ne_timestamp = now e\<rparr>]\<rparr>"
    using assms
    by (simp add: arrival_details_def on_page_error_def Let_def handle_error_buffer_update)
  moreover have "on_console e ''error'' ev st
           = (handle_error e (PStr (ev_text ev)) (PStr ''console_error'')
                (Some (arrival_details st ev)) st)
               \<lparr>navigation_errors := navigation_errors st @
                   [\<lparr>ne_error = ev_text ev, ne_details = arrival_details st ev,
                     ne_timestamp = now e\<rparr>]\<rparr>"
    using assms
    by (simp add: arrival_details_def on_console_def Let_def handle_error_buffer_update)
  moreover have "navigation_errors (on_promise_rejection e ev st) = navigation_errors st"
    by (simp add: on_promise_rejection_def)
  moreover have "navigation_errors (on_custom_error e ev st) = navigation_errors st"
    by (simp add: on_custom_error_def Let_def)
  moreover have "on_promise_rejection e ev st
           = handle_error e (PStr (ev_text ev)) (PStr ''promise_rejection'')
               (Some (add_code_context (ev_fetched ev) (ev_details ev))) st"
    by (simp add: on_promise_rejection_def)
  moreover have "on_custom_error e ev st
           = handle_error e
               (dict_get (ev_details ev) ''message''
                  (dict_get (ev_details ev) ''reason'' (PStr (ev_text ev))))
               (dict_get (ev_details ev) ''type'' (PStr ''custom_error''))
               (Some (add_code_context (ev_fetched ev) (ev_details ev))) st"
    by (simp add: on_custom_error_def Let_def add_code_context_keeps)
  moreover have "dict_get (add_code_context (ev_fetched ev) (ev_details ev)) ''navigation_context'' PNone
           = dict_get (ev_details ev) ''navigation_context'' PNone"
    by (simp add: add_code_context_keeps)
  moreover have "dict_get (add_code_context (ev_fetched ev) (ev_details ev)) ''navigation_url'' PNone
           = dict_get (ev_details ev) ''navigation_url'' PNone"
    by (simp add: add_code_context_keeps)
  ultimately show ?thesis
    using arrival_details_tagged by blast
qed

text \<open>
  The claim as stated fails: in a fresh session with a navigation in progress, a page
  error (and likewise a console error) has its record in the ledger as soon as the
  listener returns, before any flush.
\<close>

theorem arrival_is_handled_at_once:
  "navigation_in_progress
     ((start_session \<lparr>now = ''t0'', write_ok = True\<rparr> None)\<lparr>navigation_in_progress := True\<rparr>) \<and>
   errors (the (error_json
     ((start_session \<lparr>now = ''t0'', write_ok = True\<rparr> None)\<lparr>navigation_in_progress := True\<rparr>))) = [] \<and>
   length (errors (the (error_json
     (on_page_error \<lparr>now = ''t1'', write_ok = True\<rparr>
        \<lparr>ev_text = ''boom'', ev_details = [], ev_fetched = None\<rparr>
        ((start_session \<lparr>now = ''t0'', write_ok = True\<rparr> None)\<lparr>navigation_in_progress := True\<rparr>))))) = 1 \<and>
   length (errors (the (error_json
     (on_console \<lparr>now = ''t1'', write_ok = True\<rparr> ''error''
        \<lparr>ev_text = ''boom'', ev_details = [], ev_fetched = None\<rparr>
        ((start_session \<lparr>now = ''t0'', write_ok = True\<rparr> None)\<lparr>navigation_in_progress := True\<rparr>))))) = 1"
  by code_simp

theorem arrival_during_navigation_witness:
  "navigation_in_progress
     ((start_session \<lparr>now = ''t0'', write_ok = True\<rparr> None)\<lparr>navigation_in_progress := True\<rparr>) \<and>
   dict_get (arrival_details
       ((start_session \<lparr>now = ''t0'', write_ok = True\<rparr> None)\<lparr>navigation_in_progress := True\<rparr>)
       \<lparr>ev_text = ''boom'', ev_details = [], ev_fetched = None\<rparr>) ''navigation_context'' PNone
     = PBool True \<and>
   on_page_error \<lparr>now = ''t1'', write_ok = True\<rparr>
       \<lparr>ev_text = ''boom'', ev_details = [], ev_fetched = None\<rparr>
       ((start_session \<lparr>now = ''t0'', write_ok = True\<rparr> None)\<lparr>navigation_in_progress := True\<rparr>)
     = (handle_error \<lparr>now = ''t1'', write_ok = True\<rparr>
          (PStr (ev_text \<lparr>ev_text = ''boom'', ev_details = [], ev_fetched = None\<rparr>))
          (PStr ''page_error'')
          (Some (arrival_details
             ((start_session \<lparr>now = ''t0'', write_ok = True\<rparr> None)\<lparr>navigation_in_progress := True\<rparr>)
             \<lparr>ev_text = ''boom'', ev_details = [], ev_fetched = None\<rparr>))
          ((start_session \<lparr>now = ''t0'', write_ok = True\<rparr> None)\<lparr>navigation_in_progress := True\<rparr>))
         \<lparr>navigation_errors :=
            navigation_errors
              ((start_session \<lparr>now = ''t0'', write_ok = True\<rparr> None)\<lparr>navigation_in_progress := True\<rparr>) @
            [\<lparr>ne_error = ev_text \<lparr>ev_text = ''boom'', ev_details = [], ev_fetched = None\<rparr>,
              ne_details = arrival_details
                ((start_session \<lparr>now = ''t0'', write_ok = True\<rparr> None)\<lparr>navigation_in_progress := True\<rparr>)
                \<lparr>ev_text = ''boom'', ev_details = [], ev_fetched = None\<rparr>,
              ne_timestamp = now \<lparr>now = ''t1'', write_ok = True\<rparr>\<rparr>]\<rparr> \<and>
   on_promise_rejection \<lparr>now = ''t1'', write_ok = True\<rparr>
       \<lparr>ev_text = ''boom'', ev_details = [], ev_fetched = None\<rparr>
       ((start_session \<lparr>now = ''t0'', write_ok = True\<rparr> None)\<lparr>navigation_in_progress := True\<rparr>)
     = handle_error \<lparr>now = ''t1'', write_ok = True\<rparr>
         (PStr (ev_text \<lparr>ev_text = ''boom'', ev_details = [], ev_fetched = None\<rparr>))
         (PStr ''promise_rejection'')
         (Some (add_code_context
            (ev_fetched \<lparr>ev_text = ''boom'', ev_details = [], ev_fetched = None\<rparr>)
            (ev_details \<lparr>ev_text = ''boom'', ev_details = [], ev_fetched = None\<rparr>)))
         ((start_session \<lparr>now = ''t0'', write_ok = True\<rparr> None)\<lparr>navigation_in_progress := True\<rparr>) \<and>
   on_custom_error \<lparr>now = ''t1'', write_ok = True\<rparr>
       \<lparr>ev_text = ''boom'', ev_details = [], ev_fetched = None\<rparr>
       ((start_session \<lparr>now = ''t0'', write_ok = True\<rparr> None)\<lparr>navigation_in_progress := True\<rparr>)
     = handle_error \<lparr>now = ''t1'', write_ok = True\<rparr>
         (dict_get (ev_details \<lparr>ev_text = ''boom'', ev_details = [], ev_fetched = None\<rparr>) ''message''
            (dict_get (ev_details \<lparr>ev_text = ''boom'', ev_details = [], ev_fetched = None\<rparr>) ''reason''
               (PStr (ev_text \<lparr>ev_text = ''boom'', ev_details = [], ev_fetched = None\<rparr>))))
         (dict_get (ev_details \<lparr>ev_text = ''boom'', ev_details = [], ev_fetched = None\<rparr>) ''type''
            (PStr ''custom_error''))
         (Some (add_code_context
            (ev_fetched \<lparr>ev_text = ''boom'', ev_details = [], ev_fetched = None\<rparr>)
            (ev_details \<lparr>ev_text = ''boom'', ev_details = [], ev_fetched = None\<rparr>)))
         ((start_session \<lparr>now = ''t0'', write_ok = True\<rparr> None)\<lparr>navigation_in_progress := True\<rparr>)"
proof -
  have h: "navigation_in_progress
     ((start_session \<lparr>now = ''t0'', write_ok = True\<rparr> None)\<lparr>navigation_in_progress := True\<rparr>)"
    by simp
  from arrival_during_navigation [OF h, of "\<lparr>ev_text = ''boom'', ev_details = [], ev_fetched = None\<rparr>"
         "\<lparr>now = ''t1'', write_ok = True\<rparr>"] h
  show ?thesis by blast
qed

section \<open>The channels and the key of a fault\<close>

text \<open>
  What a listener adds to the details of an event, the navigation tag and the code
  context, leaves the file name, the line and the column as they are: whatever the
  channel, \<open>handle_error\<close> is called with the key of the event.
\<close>

lemma detail_after_set:
  "k' \<noteq> k \<Longrightarrow> detail_or_unknown (Some (dict_set k v d)) k' = detail_or_unknown (Some d) k'"
proof (cases "d = []")
  case True
  then show ?thesis if "k' \<noteq> k"
    using that by (simp add: detail_or_unknown_def dict_get_def)
next
  case False
  then show ?thesis if "k' \<noteq> k"
    using that by (simp add: detail_or_unknown_def dict_get_dict_set)
qed

lemma detail_after_code_context:
  "k \<noteq> ''code_context'' \<Longrightarrow>
   detail_or_unknown (Some (add_code_context fetched d)) k = detail_or_unknown (Some d) k"
  by (auto simp: add_code_context_def detail_after_set split: option.splits)

lemma fault_key_of_listener:
  "fault_key err (Some (add_code_context fetched d)) = fault_key err (Some d)"
  "fault_key err (Some (arrival_details st ev)) = fault_key err (Some (ev_details ev))"
  by (simp_all add: fault_key_def arrival_details_def tag_navigation_def
        detail_after_code_context detail_after_set)

section \<open>The end of \<open>handle_navigation\<close>\<close>

lemma handle_navigation_page_url:
  "new_url \<noteq> original_url \<Longrightarrow>
   page_url (handle_navigation n new_url info st) = fst (return_to_original n (page_url st))"
  by (simp add: handle_navigation_def Let_def)

lemma handle_navigation_settles:
  assumes "new_url \<noteq> original_url"
    and "b \<in> set (navigation_errors (navigation_waited n st))"
  shows "settled (handle_navigation n new_url info st) (ne_error b) (ne_details b)"
proof -
  let ?flushed = "navigation_flushed n new_url info st"
  let ?late = "foldl (\<lambda>s a. deliver a s) ?flushed (nv_late n)"
  have "settled ?flushed (ne_error b) (ne_details b)"
    unfolding navigation_flushed_def Let_def using assms(2) by (rule flush_settles)
  then have late: "settled ?late (ne_error b) (ne_details b)"
    using deliver_all_evolves evolves_settled by blast
  have "settled (handle_navigation n new_url info st) (ne_error b) (ne_details b)
          = settled ?late (ne_error b) (ne_details b)"
    using assms(1) by (intro settled_cong) (simp_all add: handle_navigation_def Let_def)
  with late show ?thesis by simp
qed

text \<open>
  The buffer under the listeners and the flush: a listener only appends to it, and the
  loop of the flush leaves in it the entries it found there, each with the URL of the
  navigation and the text of the element written into its details.
\<close>

lemma handle_all_buffer:
  "navigation_errors (foldl (\<lambda>s x. handle_error e (f x) k (g x) s) st xs) = navigation_errors st"
  by (induction xs arbitrary: st) simp_all

lemma flush_buffer:
  "navigation_errors (flush_navigation_errors e u i st)
     = map (flush_details u i) (navigation_errors st)"
  by (simp add: flush_navigation_errors_def Let_def handle_all_buffer)

lemma deliver_buffer_grows:
  "take (length (navigation_errors st)) (navigation_errors (deliver a st)) = navigation_errors st"
proof (cases a)
  case (Pair e arr)
  then show ?thesis
    by (cases arr)
       (simp_all add: on_page_error_def on_console_def on_promise_rejection_def
          on_custom_error_def Let_def)
qed

lemma deliver_all_buffer_grows:
  "take (length (navigation_errors st)) (navigation_errors (foldl (\<lambda>s a. deliver a s) st as))
     = navigation_errors st"
proof (induction as arbitrary: st)
  case Nil
  then show ?case by simp
next
  case (Cons a as)
  let ?b0 = "navigation_errors st"
  let ?b1 = "navigation_errors (deliver a st)"
  let ?b2 = "navigation_errors (foldl (\<lambda>s a. deliver a s) (deliver a st) as)"
  have one: "take (length ?b0) ?b1 = ?b0"
    by (rule deliver_buffer_grows)
  have le: "length ?b0 \<le> length ?b1"
    using arg_cong [OF one, of length] by simp
  have "take (length ?b0) ?b2 = take (length ?b0) (take (length ?b1) ?b2)"
    using le by (simp add: min_def)
  also have "\<dots> = take (length ?b0) ?b1"
    by (simp only: Cons.IH)
  also have "\<dots> = ?b0"
    by (rule one)
  finally show ?case by simp
qed

lemma handle_navigation_buffer:
  assumes "new_url \<noteq> original_url"
  shows "take (length (navigation_errors (navigation_waited n st)))
           (navigation_errors (handle_navigation n new_url info st))
         = map (flush_details new_url
                  (case info of None \<Rightarrow> current_element_info st | Some i \<Rightarrow> Some i))
             (navigation_errors (navigation_waited n st))"
proof -
  let ?flushed = "navigation_flushed n new_url info st"
  let ?stamped = "map (flush_details new_url
                         (case info of None \<Rightarrow> current_element_info st | Some i \<Rightarrow> Some i))
                    (navigation_errors (navigation_waited n st))"
  have flushed: "navigation_errors ?flushed = ?stamped"
    by (simp add: navigation_flushed_def Let_def flush_buffer)
  have "navigation_errors (handle_navigation n new_url info st)
          = navigation_errors (foldl (\<lambda>s a. deliver a s) ?flushed (nv_late n))"
    using assms by (simp add: handle_navigation_def Let_def)
  moreover have "take (length (navigation_errors ?flushed))
                   (navigation_errors (foldl (\<lambda>s a. deliver a s) ?flushed (nv_late n)))
                 = navigation_errors ?flushed"
    by (rule deliver_all_buffer_grows)
  ultimately show ?thesis
    by (simp add: flushed)
qed

text \<open>
  With listeners that run to their end before the flush starts, every buffered event
  has been through \<open>handle_error\<close> when the flush hands it over again, under the same
  message, file name, line and column: the calls of the flush are duplicates, and all
  that the flush changes is the buffer.
\<close>

lemma settled_noop:
  assumes "settled st t x"
  shows "handle_error e (PStr t) k (Some x) st = st"
proof -
  let ?F = "detail_or_unknown (Some x) ''filename''"
  let ?L = "detail_or_unknown (Some x) ''lineno''"
  let ?C = "detail_or_unknown (Some x) ''colno''"
  have kind: "generate_error_signature PNone t ?F ?L ?C = generate_error_signature k t ?F ?L ?C"
    by (rule kind_irrelevant)
  show ?thesis
  proof (cases "generate_error_signature k t ?F ?L ?C")
    case (Inl ex)
    then show ?thesis by (simp add: handle_error_def Let_def)
  next
    case (Inr sg)
    with assms kind have "sg \<in> seen_errors st \<or> found_in_json (error_json st) t ?F ?L"
      by (simp add: settled_def)
    then show ?thesis using Inr by (auto simp: handle_error_def Let_def)
  qed
qed

lemma deliver_keeps_settled:
  assumes "\<forall>b \<in> set (navigation_errors st). settled st (ne_error b) (ne_details b)"
  shows "\<forall>b \<in> set (navigation_errors (deliver a st)).
           settled (deliver a st) (ne_error b) (ne_details b)"
proof
  fix b
  assume b: "b \<in> set (navigation_errors (deliver a st))"
  obtain e arr where a: "a = (e, arr)" by (cases a)
  have old: "settled (deliver a st) (ne_error b') (ne_details b')"
    if "b' \<in> set (navigation_errors st)" for b'
    using assms that deliver_evolves evolves_settled by blast
  let ?h = "\<lambda>k ev. handle_error e (PStr (ev_text ev)) (PStr k) (Some (arrival_details st ev)) st"
  let ?new = "\<lambda>ev. \<lparr>ne_error = ev_text ev, ne_details = arrival_details st ev, ne_timestamp = now e\<rparr>"
  have new: "settled ((?h k ev)\<lparr>navigation_errors := navigation_errors st @ [?new ev]\<rparr>)
               (ne_error (?new ev)) (ne_details (?new ev))" for k ev
  proof -
    have "settled (?h k ev) (ev_text ev) (arrival_details st ev)"
      by (rule handled_is_settled)
    moreover have "settled ((?h k ev)\<lparr>navigation_errors := navigation_errors st @ [?new ev]\<rparr>)
                     (ev_text ev) (arrival_details st ev)
                   = settled (?h k ev) (ev_text ev) (arrival_details st ev)"
      by (rule settled_cong) simp_all
    ultimately show ?thesis by simp
  qed
  show "settled (deliver a st) (ne_error b) (ne_details b)"
  proof (cases arr)
    case (PageError ev)
    show ?thesis
    proof (cases "navigation_in_progress st")
      case True
      then have eq: "deliver a st
          = (?h ''page_error'' ev)\<lparr>navigation_errors := navigation_errors st @ [?new ev]\<rparr>"
        using a PageError
        by (simp add: arrival_details_def on_page_error_def Let_def handle_error_buffer_update)
      with b have "b \<in> set (navigation_errors st) \<or> b = ?new ev" by auto
      then show ?thesis using old new [where k = "''page_error''" and ev = ev] eq by auto
    next
      case False
      then have "navigation_errors (deliver a st) = navigation_errors st"
        using a PageError by (simp add: on_page_error_def)
      with b old show ?thesis by simp
    qed
  next
    case (Console msg_type ev)
    show ?thesis
    proof (cases "navigation_in_progress st \<and> msg_type = ''error''")
      case True
      then have eq: "deliver a st
          = (?h ''console_error'' ev)\<lparr>navigation_errors := navigation_errors st @ [?new ev]\<rparr>"
        using a Console
        by (simp add: arrival_details_def on_console_def Let_def handle_error_buffer_update)
      with b have "b \<in> set (navigation_errors st) \<or> b = ?new ev" by auto
      then show ?thesis using old new [where k = "''console_error''" and ev = ev] eq by auto
    next
      case False
      then have "navigation_errors (deliver a st) = navigation_errors st"
        using a Console by (auto simp: on_console_def)
      with b old show ?thesis by simp
    qed
  next
    case (PromiseRejection ev)
    then have "navigation_errors (deliver a st) = navigation_errors st"
      using a by (simp add: on_promise_rejection_def)
    with b old show ?thesis by simp
  next
    case (CustomError ev)
    then have "navigation_errors (deliver a st) = navigation_errors st"
      using a by (simp add: on_custom_error_def Let_def)
    with b old show ?thesis by simp
  qed
qed

lemma deliver_all_keeps_settled:
  "\<forall>b \<in> set (navigation_errors st). settled st (ne_error b) (ne_details b) \<Longrightarrow>
   \<forall>b \<in> set (navigation_errors (foldl (\<lambda>s a. deliver a s) st as)).
     settled (foldl (\<lambda>s a. deliver a s) st as) (ne_error b) (ne_details b)"
proof (induction as arbitrary: st)
  case Nil
  then show ?case by simp
next
  case (Cons a as)
  from Cons.prems have "\<forall>b \<in> set (navigation_errors (deliver a st)).
           settled (deliver a st) (ne_error b) (ne_details b)"
    by (rule deliver_keeps_settled)
  then show ?case
    using Cons.IH [of "deliver a st"] by simp
qed

lemma waited_is_settled:
  "\<forall>b \<in> set (navigation_errors (navigation_waited n st)).
     settled (navigation_waited n st) (ne_error b) (ne_details b)"
  unfolding navigation_waited_def by (rule deliver_all_keeps_settled) simp

lemma handle_all_noop:
  "\<forall>b \<in> set bs. settled st (ne_error b) (ne_details b) \<Longrightarrow>
   foldl (\<lambda>s x. handle_error e (PStr (ne_error x)) k (Some (ne_details x)) s) st bs = st"
  by (induction bs) (simp_all add: settled_noop)

lemma flush_writes_nothing:
  "navigation_flushed n new_url info st
     = (navigation_waited n st)
         \<lparr>navigation_errors :=
            map (flush_details new_url
                   (case info of None \<Rightarrow> current_element_info st | Some i \<Rightarrow> Some i))
              (navigation_errors (navigation_waited n st))\<rparr>"
proof -
  let ?w = "navigation_waited n st"
  let ?i = "case info of None \<Rightarrow> current_element_info st | Some i \<Rightarrow> Some i"
  let ?stamped = "map (flush_details new_url ?i) (navigation_errors ?w)"
  have "settled (?w\<lparr>navigation_errors := ?stamped\<rparr>) (ne_error b) (ne_details b)"
    if "b \<in> set ?stamped" for b
  proof -
    from that obtain b0 where b0: "b0 \<in> set (navigation_errors ?w)"
      and b: "b = flush_details new_url ?i b0" by auto
    from b0 waited_is_settled have "settled ?w (ne_error b0) (ne_details b0)" by blast
    then have "settled ?w (ne_error b) (ne_details b)"
      by (simp add: b settled_flush_details)
    moreover have "settled (?w\<lparr>navigation_errors := ?stamped\<rparr>) (ne_error b) (ne_details b)
                     = settled ?w (ne_error b) (ne_details b)"
      by (rule settled_cong) simp_all
    ultimately show ?thesis by simp
  qed
  then have "foldl (\<lambda>s x. handle_error (nv_flush n) (PStr (ne_error x)) (PStr ''navigation_error'')
                             (Some (ne_details x)) s)
               (?w\<lparr>navigation_errors := ?stamped\<rparr>) ?stamped
             = ?w\<lparr>navigation_errors := ?stamped\<rparr>"
    by (intro handle_all_noop) blast
  then show ?thesis
    by (simp add: navigation_flushed_def flush_navigation_errors_def Let_def)
qed

text \<open>
  Claim C4, as amended. A run of \<open>handle_navigation\<close> for a URL other than the original
  one ends with \<open>navigation_in_progress\<close> false, whether or not a method succeeded. If a
  method succeeded, the page is on the domain of the original URL; it is at the original
  URL itself unless the method that succeeded was the reload, which leaves the page at
  the URL where the failed first method left it. Whatever the methods do, the events
  buffered during the wait have been flushed: the state after the loop is the state
  after handing each buffered entry, stamped with the URL of the navigation and the text
  of the element, to \<open>handle_error\<close> as a \<open>navigation_error\<close>, in the order of the buffer;
  in the end the buffer starts with the stamped entries, and every buffered event is
  settled.
\<close>

theorem navigation_ends_idle:
  assumes "new_url \<noteq> original_url"
  shows "\<not> navigation_in_progress (handle_navigation n new_url info st) \<and>
         (snd (return_to_original n (page_url st)) \<longrightarrow>
            extract_domain (page_url (handle_navigation n new_url info st))
              = extract_domain original_url) \<and>
         (snd (return_to_original n (page_url st)) \<and>
            page_url (handle_navigation n new_url info st) \<noteq> original_url \<longrightarrow>
              nv_reload2 n = Completes \<and>
              nv_goto1 n = Raises (page_url (handle_navigation n new_url info st))) \<and>
         (nv_goto1 n = Completes \<longrightarrow>
            page_url (handle_navigation n new_url info st) = original_url) \<and>
         (\<forall>b \<in> set (navigation_errors (navigation_waited n st)).
            settled (handle_navigation n new_url info st) (ne_error b) (ne_details b)) \<and>
         navigation_flushed n new_url info st
           = foldl (\<lambda>s b. handle_error (nv_flush n) (PStr (ne_error b)) (PStr ''navigation_error'')
                            (Some (ne_details b)) s)
               ((navigation_waited n st)
                  \<lparr>navigation_errors :=
                     map (flush_details new_url
                            (case info of None \<Rightarrow> current_element_info st | Some i \<Rightarrow> Some i))
                       (navigation_errors (navigation_waited n st))\<rparr>)
               (map (flush_details new_url
                       (case info of None \<Rightarrow> current_element_info st | Some i \<Rightarrow> Some i))
                  (navigation_errors (navigation_waited n st))) \<and>
         take (length (navigation_errors (navigation_waited n st)))
             (navigation_errors (handle_navigation n new_url info st))
           = map (flush_details new_url
                    (case info of None \<Rightarrow> current_element_info st | Some i \<Rightarrow> Some i))
               (navigation_errors (navigation_waited n st))"
proof (intro conjI impI ballI)
  note url = handle_navigation_page_url [OF assms]
  show "\<not> navigation_in_progress (handle_navigation n new_url info st)"
    using assms by (simp add: handle_navigation_def Let_def)
  show "extract_domain (page_url (handle_navigation n new_url info st))
          = extract_domain original_url"
    if "snd (return_to_original n (page_url st))"
    using that by (simp add: url return_domain)
  show "nv_reload2 n = Completes"
    if "snd (return_to_original n (page_url st)) \<and>
        page_url (handle_navigation n new_url info st) \<noteq> original_url"
    using that return_not_origin [of n "page_url st"] by (simp add: url)
  show "nv_goto1 n = Raises (page_url (handle_navigation n new_url info st))"
    if "snd (return_to_original n (page_url st)) \<and>
        page_url (handle_navigation n new_url info st) \<noteq> original_url"
    using that return_not_origin [of n "page_url st"] by (auto simp: url)
  show "page_url (handle_navigation n new_url info st) = original_url"
    if "nv_goto1 n = Completes"
    using that by (simp add: url return_first)
  show "settled (handle_navigation n new_url info st) (ne_error b) (ne_details b)"
    if "b \<in> set (navigation_errors (navigation_waited n st))" for b
    using assms that by (rule handle_navigation_settles)
  show "navigation_flushed n new_url info st
           = foldl (\<lambda>s b. handle_error (nv_flush n) (PStr (ne_error b)) (PStr ''navigation_error'')
                            (Some (ne_details b)) s)
               ((navigation_waited n st)
                  \<lparr>navigation_errors :=
                     map (flush_details new_url
                            (case info of None \<Rightarrow> current_element_info st | Some i \<Rightarrow> Some i))
                       (navigation_errors (navigation_waited n st))\<rparr>)
               (map (flush_details new_url
                       (case info of None \<Rightarrow> current_element_info st | Some i \<Rightarrow> Some i))
                  (navigation_errors (navigation_waited n st)))"
    by (simp add: navigation_flushed_def flush_navigation_errors_def Let_def)
  show "take (length (navigation_errors (navigation_waited n st)))
             (navigation_errors (handle_navigation n new_url info st))
           = map (flush_details new_url
                    (case info of None \<Rightarrow> current_element_info st | Some i \<Rightarrow> Some i))
               (navigation_errors (navigation_waited n st))"
    using assms by (rule handle_navigation_buffer)
qed

text \<open>
  The claim as stated fails when the first method raises with the page on another path
  of the original domain: the reload succeeds, the guard is idle, and the page is not at
  the original URL.
\<close>

theorem reload_does_not_return:
  "snd (return_to_original
      \<lparr>nv_early = [], nv_flush = \<lparr>now = ''t2'', write_ok = True\<rparr>, nv_late = [],
       nv_goto1 = Raises ''https://add-cwv-check--bbird--aemsites.aem.page/about'',
       nv_reload2 = Completes, nv_goto3 = Completes, nv_goto4 = Completes,
       nv_goto5 = Completes\<rparr>
      ''https://add-cwv-check--bbird--aemsites.aem.page/about'') \<and>
   \<not> navigation_in_progress (handle_navigation
      \<lparr>nv_early = [], nv_flush = \<lparr>now = ''t2'', write_ok = True\<rparr>, nv_late = [],
       nv_goto1 = Raises ''https://add-cwv-check--bbird--aemsites.aem.page/about'',
       nv_reload2 = Completes, nv_goto3 = Completes, nv_goto4 = Completes,
       nv_goto5 = Completes\<rparr>
      ''https://add-cwv-check--bbird--aemsites.aem.page/about'' None
      ((start_session \<lparr>now = ''t0'', write_ok = True\<rparr> None)
         \<lparr>page_url := ''https://add-cwv-check--bbird--aemsites.aem.page/about''\<rparr>)) \<and>
   page_url (handle_navigation
      \<lparr>nv_early = [], nv_flush = \<lparr>now = ''t2'', write_ok = True\<rparr>, nv_late = [],
       nv_goto1 = Raises ''https://add-cwv-check--bbird--aemsites.aem.page/about'',
       nv_reload2 = Completes, nv_goto3 = Completes, nv_goto4 = Completes,
       nv_goto5 = Completes\<rparr>
      ''https://add-cwv-check--bbird--aemsites.aem.page/about'' None
      ((start_session \<lparr>now = ''t0'', write_ok = True\<rparr> None)
         \<lparr>page_url := ''https://add-cwv-check--bbird--aemsites.aem.page/about''\<rparr>))
     = ''https://add-cwv-check--bbird--aemsites.aem.page/about'' \<and>
   ''https://add-cwv-check--bbird--aemsites.aem.page/about'' \<noteq> original_url"
  by code_simp

theorem navigation_ends_idle_witness:
  "''https://add-cwv-check--bbird--aemsites.aem.page/about'' \<noteq> original_url \<and>
   \<not> navigation_in_progress (handle_navigation
       \<lparr>nv_early = [(\<lparr>now = ''t1'', write_ok = True\<rparr>, PageError \<lparr>ev_text = ''boom'', ev_details = [], ev_fetched = None\<rparr>)],
        nv_flush = \<lparr>now = ''t2'', write_ok = True\<rparr>, nv_late = [],
        nv_goto1 = Raises ''https://add-cwv-check--bbird--aemsites.aem.page/about'',
        nv_reload2 = Completes, nv_goto3 = Completes, nv_goto4 = Completes,
        nv_goto5 = Completes\<rparr>
       ''https://add-cwv-check--bbird--aemsites.aem.page/about'' None
       ((start_session \<lparr>now = ''t0'', write_ok = True\<rparr> None)
        \<lparr>page_url := ''https://add-cwv-check--bbird--aemsites.aem.page/about''\<rparr>)) \<and>
   snd (return_to_original
       \<lparr>nv_early = [(\<lparr>now = ''t1'', write_ok = True\<rparr>, PageError \<lparr>ev_text = ''boom'', ev_details = [], ev_fetched = None\<rparr>)],
        nv_flush = \<lparr>now = ''t2'', write_ok = True\<rparr>, nv_late = [],
        nv_goto1 = Raises ''https://add-cwv-check--bbird--aemsites.aem.page/about'',
        nv_reload2 = Completes, nv_goto3 = Completes, nv_goto4 = Completes,
        nv_goto5 = Completes\<rparr>
       (page_url ((start_session \<lparr>now = ''t0'', write_ok = True\<rparr> None)
        \<lparr>page_url := ''https://add-cwv-check--bbird--aemsites.aem.page/about''\<rparr>))) \<and>
   extract_domain (page_url (handle_navigation
       \<lparr>nv_early = [(\<lparr>now = ''t1'', write_ok = True\<rparr>, PageError \<lparr>ev_text = ''boom'', ev_details = [], ev_fetched = None\<rparr>)],
        nv_flush = \<lparr>now = ''t2'', write_ok = True\<rparr>, nv_late = [],
        nv_goto1 = Raises ''https://add-cwv-check--bbird--aemsites.aem.page/about'',
        nv_reload2 = Completes, nv_goto3 = Completes, nv_goto4 = Completes,
        nv_goto5 = Completes\<rparr>
       ''https://add-cwv-check--bbird--aemsites.aem.page/about'' None
       ((start_session \<lparr>now = ''t0'', write_ok = True\<rparr> None)
        \<lparr>page_url := ''https://add-cwv-check--bbird--aemsites.aem.page/about''\<rparr>))) = extract_domain original_url \<and>
   page_url (handle_navigation
       \<lparr>nv_early = [(\<lparr>now = ''t1'', write_ok = True\<rparr>, PageError \<lparr>ev_text = ''boom'', ev_details = [], ev_fetched = None\<rparr>)],
        nv_flush = \<lparr>now = ''t2'', write_ok = True\<rparr>, nv_late = [],
        nv_goto1 = Raises ''https://add-cwv-check--bbird--aemsites.aem.page/about'',
        nv_reload2 = Completes, nv_goto3 = Completes, nv_goto4 = Completes,
        nv_goto5 = Completes\<rparr>
       ''https://add-cwv-check--bbird--aemsites.aem.page/about'' None
       ((start_session \<lparr>now = ''t0'', write_ok = True\<rparr> None)
        \<lparr>page_url := ''https://add-cwv-check--bbird--aemsites.aem.page/about''\<rparr>)) \<noteq> original_url \<and>
   nv_reload2 \<lparr>nv_early = [(\<lparr>now = ''t1'', write_ok = True\<rparr>, PageError \<lparr>ev_text = ''boom'', ev_details = [], ev_fetched = None\<rparr>)],
        nv_flush = \<lparr>now = ''t2'', write_ok = True\<rparr>, nv_late = [],
        nv_goto1 = Raises ''https://add-cwv-check--bbird--aemsites.aem.page/about'',
        nv_reload2 = Completes, nv_goto3 = Completes, nv_goto4 = Completes,
        nv_goto5 = Completes\<rparr> = Completes \<and>
   nv_goto1 \<lparr>nv_early = [(\<lparr>now = ''t1'', write_ok = True\<rparr>, PageError \<lparr>ev_text = ''boom'', ev_details = [], ev_fetched = None\<rparr>)],
        nv_flush = \<lparr>now = ''t2'', write_ok = True\<rparr>, nv_late = [],
        nv_goto1 = Raises ''https://add-cwv-check--bbird--aemsites.aem.page/about'',
        nv_reload2 = Completes, nv_goto3 = Completes, nv_goto4 = Completes,
        nv_goto5 = Completes\<rparr>
     = Raises (page_url (handle_navigation
       \<lparr>nv_early = [(\<lparr>now = ''t1'', write_ok = True\<rparr>, PageError \<lparr>ev_text = ''boom'', ev_details = [], ev_fetched = None\<rparr>)],
        nv_flush = \<lparr>now = ''t2'', write_ok = True\<rparr>, nv_late = [],
        nv_goto1 = Raises ''https://add-cwv-check--bbird--aemsites.aem.page/about'',
        nv_reload2 = Completes, nv_goto3 = Completes, nv_goto4 = Completes,
        nv_goto5 = Completes\<rparr>
       ''https://add-cwv-check--bbird--aemsites.aem.page/about'' None
       ((start_session \<lparr>now = ''t0'', write_ok = True\<rparr> None)
        \<lparr>page_url := ''https://add-cwv-check--bbird--aemsites.aem.page/about''\<rparr>))) \<and>
   \<lparr>ne_error = ''boom'',
        ne_details = [(''navigation_context'', PBool True), (''navigation_url'', PStr ''https://add-cwv-check--bbird--aemsites.aem.page/about'')],
        ne_timestamp = ''t1''\<rparr>
     \<in> set (navigation_errors (navigation_waited
       \<lparr>nv_early = [(\<lparr>now = ''t1'', write_ok = True\<rparr>, PageError \<lparr>ev_text = ''boom'', ev_details = [], ev_fetched = None\<rparr>)],
        nv_flush = \<lparr>now = ''t2'', write_ok = True\<rparr>, nv_late = [],
        nv_goto1 = Raises ''https://add-cwv-check--bbird--aemsites.aem.page/about'',
        nv_reload2 = Completes, nv_goto3 = Completes, nv_goto4 = Completes,
        nv_goto5 = Completes\<rparr>
       ((start_session \<lparr>now = ''t0'', write_ok = True\<rparr> None)
        \<lparr>page_url := ''https://add-cwv-check--bbird--aemsites.aem.page/about''\<rparr>))) \<and>
   settled (handle_navigation
       \<lparr>nv_early = [(\<lparr>now = ''t1'', write_ok = True\<rparr>, PageError \<lparr>ev_text = ''boom'', ev_details = [], ev_fetched = None\<rparr>)],
        nv_flush = \<lparr>now = ''t2'', write_ok = True\<rparr>, nv_late = [],
        nv_goto1 = Raises ''https://add-cwv-check--bbird--aemsites.aem.page/about'',
        nv_reload2 = Completes, nv_goto3 = Completes, nv_goto4 = Completes,
        nv_goto5 = Completes\<rparr>
       ''https://add-cwv-check--bbird--aemsites.aem.page/about'' None
       ((start_session \<lparr>now = ''t0'', write_ok = True\<rparr> None)
        \<lparr>page_url := ''https://add-cwv-check--bbird--aemsites.aem.page/about''\<rparr>))
     (ne_error \<lparr>ne_error = ''boom'',
        ne_details = [(''navigation_context'', PBool True), (''navigation_url'', PStr ''https://add-cwv-check--bbird--aemsites.aem.page/about'')],
        ne_timestamp = ''t1''\<rparr>)
     (ne_details \<lparr>ne_error = ''boom'',
        ne_details = [(''navigation_context'', PBool True), (''navigation_url'', PStr ''https://add-cwv-check--bbird--aemsites.aem.page/about'')],
        ne_timestamp = ''t1''\<rparr>) \<and>
   take (length (navigation_errors (navigation_waited
       \<lparr>nv_early = [(\<lparr>now = ''t1'', write_ok = True\<rparr>, PageError \<lparr>ev_text = ''boom'', ev_details = [], ev_fetched = None\<rparr>)],
        nv_flush = \<lparr>now = ''t2'', write_ok = True\<rparr>, nv_late = [],
        nv_goto1 = Raises ''https://add-cwv-check--bbird--aemsites.aem.page/about'',
        nv_reload2 = Completes, nv_goto3 = Completes, nv_goto4 = Completes,
        nv_goto5 = Completes\<rparr>
       ((start_session \<lparr>now = ''t0'', write_ok = True\<rparr> None)
        \<lparr>page_url := ''https://add-cwv-check--bbird--aemsites.aem.page/about''\<rparr>))))
       (navigation_errors (handle_navigation
       \<lparr>nv_early = [(\<lparr>now = ''t1'', write_ok = True\<rparr>, PageError \<lparr>ev_text = ''boom'', ev_details = [], ev_fetched = None\<rparr>)],
        nv_flush = \<lparr>now = ''t2'', write_ok = True\<rparr>, nv_late = [],
        nv_goto1 = Raises ''https://add-cwv-check--bbird--aemsites.aem.page/about'',
        nv_reload2 = Completes, nv_goto3 = Completes, nv_goto4 = Completes,
        nv_goto5 = Completes\<rparr>
       ''https://add-cwv-check--bbird--aemsites.aem.page/about'' None
       ((start_session \<lparr>now = ''t0'', write_ok = True\<rparr> None)
        \<lparr>page_url := ''https://add-cwv-check--bbird--aemsites.aem.page/about''\<rparr>)))
     = map (flush_details ''https://add-cwv-check--bbird--aemsites.aem.page/about'' (case None of None \<Rightarrow> current_element_info ((start_session \<lparr>now = ''t0'', write_ok = True\<rparr> None)
        \<lparr>page_url := ''https://add-cwv-check--bbird--aemsites.aem.page/about''\<rparr>) | Some i \<Rightarrow> Some i))
       (navigation_errors (navigation_waited
       \<lparr>nv_early = [(\<lparr>now = ''t1'', write_ok = True\<rparr>, PageError \<lparr>ev_text = ''boom'', ev_details = [], ev_fetched = None\<rparr>)],
        nv_flush = \<lparr>now = ''t2'', write_ok = True\<rparr>, nv_late = [],
        nv_goto1 = Raises ''https://add-cwv-check--bbird--aemsites.aem.page/about'',
        nv_reload2 = Completes, nv_goto3 = Completes, nv_goto4 = Completes,
        nv_goto5 = Completes\<rparr>
       ((start_session \<lparr>now = ''t0'', write_ok = True\<rparr> None)
        \<lparr>page_url := ''https://add-cwv-check--bbird--aemsites.aem.page/about''\<rparr>))) \<and>
   map (flush_details ''https://add-cwv-check--bbird--aemsites.aem.page/about'' (case None of None \<Rightarrow> current_element_info ((start_session \<lparr>now = ''t0'', write_ok = True\<rparr> None)
        \<lparr>page_url := ''https://add-cwv-check--bbird--aemsites.aem.page/about''\<rparr>) | Some i \<Rightarrow> Some i))
       (navigation_errors (navigation_waited
       \<lparr>nv_early = [(\<lparr>now = ''t1'', write_ok = True\<rparr>, PageError \<lparr>ev_text = ''boom'', ev_details = [], ev_fetched = None\<rparr>)],
        nv_flush = \<lparr>now = ''t2'', write_ok = True\<rparr>, nv_late = [],
        nv_goto1 = Raises ''https://add-cwv-check--bbird--aemsites.aem.page/about'',
        nv_reload2 = Completes, nv_goto3 = Completes, nv_goto4 = Completes,
        nv_goto5 = Completes\<rparr>
       ((start_session \<lparr>now = ''t0'', write_ok = True\<rparr> None)
        \<lparr>page_url := ''https://add-cwv-check--bbird--aemsites.aem.page/about''\<rparr>)))
     = [\<lparr>ne_error = ''boom'',
        ne_details = [(''navigation_context'', PBool True), (''navigation_url'', PStr ''https://add-cwv-check--bbird--aemsites.aem.page/about''),
                      (''element_that_caused_navigation'', PStr ''Unknown'')],
        ne_timestamp = ''t1''\<rparr>] \<and>
   nv_goto1 \<lparr>nv_early = [(\<lparr>now = ''t1'', write_ok = True\<rparr>, PageError \<lparr>ev_text = ''boom'', ev_details = [], ev_fetched = None\<rparr>)],
        nv_flush = \<lparr>now = ''t2'', write_ok = True\<rparr>, nv_late = [],
        nv_goto1 = Completes,
        nv_reload2 = Completes, nv_goto3 = Completes, nv_goto4 = Completes,
        nv_goto5 = Completes\<rparr> = Completes \<and>
   page_url (handle_navigation
       \<lparr>nv_early = [(\<lparr>now = ''t1'', write_ok = True\<rparr>, PageError \<lparr>ev_text = ''boom'', ev_details = [], ev_fetched = None\<rparr>)],
        nv_flush = \<lparr>now = ''t2'', write_ok = True\<rparr>, nv_late = [],
        nv_goto1 = Completes,
        nv_reload2 = Completes, nv_goto3 = Completes, nv_goto4 = Completes,
        nv_goto5 = Completes\<rparr>
       ''https://add-cwv-check--bbird--aemsites.aem.page/about'' None
       ((start_session \<lparr>now = ''t0'', write_ok = True\<rparr> None)
        \<lparr>page_url := ''https://add-cwv-check--bbird--aemsites.aem.page/about''\<rparr>)) = original_url"
proof -
  have off: "''https://add-cwv-check--bbird--aemsites.aem.page/about'' \<noteq> original_url"
    by code_simp
  have ok: "snd (return_to_original
       \<lparr>nv_early = [(\<lparr>now = ''t1'', write_ok = True\<rparr>, PageError \<lparr>ev_text = ''boom'', ev_details = [], ev_fetched = None\<rparr>)],
        nv_flush = \<lparr>now = ''t2'', write_ok = True\<rparr>, nv_late = [],
        nv_goto1 = Raises ''https://add-cwv-check--bbird--aemsites.aem.page/about'',
        nv_reload2 = Completes, nv_goto3 = Completes, nv_goto4 = Completes,
        nv_goto5 = Completes\<rparr>
       (page_url ((start_session \<lparr>now = ''t0'', write_ok = True\<rparr> None)
        \<lparr>page_url := ''https://add-cwv-check--bbird--aemsites.aem.page/about''\<rparr>)))"
    by code_simp
  have away: "page_url (handle_navigation
       \<lparr>nv_early = [(\<lparr>now = ''t1'', write_ok = True\<rparr>, PageError \<lparr>ev_text = ''boom'', ev_details = [], ev_fetched = None\<rparr>)],
        nv_flush = \<lparr>now = ''t2'', write_ok = True\<rparr>, nv_late = [],
        nv_goto1 = Raises ''https://add-cwv-check--bbird--aemsites.aem.page/about'',
        nv_reload2 = Completes, nv_goto3 = Completes, nv_goto4 = Completes,
        nv_goto5 = Completes\<rparr>
       ''https://add-cwv-check--bbird--aemsites.aem.page/about'' None
       ((start_session \<lparr>now = ''t0'', write_ok = True\<rparr> None)
        \<lparr>page_url := ''https://add-cwv-check--bbird--aemsites.aem.page/about''\<rparr>)) \<noteq> original_url"
    by code_simp
  have buffered: "\<lparr>ne_error = ''boom'',
        ne_details = [(''navigation_context'', PBool True), (''navigation_url'', PStr ''https://add-cwv-check--bbird--aemsites.aem.page/about'')],
        ne_timestamp = ''t1''\<rparr>
     \<in> set (navigation_errors (navigation_waited
       \<lparr>nv_early = [(\<lparr>now = ''t1'', write_ok = True\<rparr>, PageError \<lparr>ev_text = ''boom'', ev_details = [], ev_fetched = None\<rparr>)],
        nv_flush = \<lparr>now = ''t2'', write_ok = True\<rparr>, nv_late = [],
        nv_goto1 = Raises ''https://add-cwv-check--bbird--aemsites.aem.page/about'',
        nv_reload2 = Completes, nv_goto3 = Completes, nv_goto4 = Completes,
        nv_goto5 = Completes\<rparr>
       ((start_session \<lparr>now = ''t0'', write_ok = True\<rparr> None)
        \<lparr>page_url := ''https://add-cwv-check--bbird--aemsites.aem.page/about''\<rparr>)))"
    by code_simp
  have stamped: "map (flush_details ''https://add-cwv-check--bbird--aemsites.aem.page/about'' (case None of None \<Rightarrow> current_element_info ((start_session \<lparr>now = ''t0'', write_ok = True\<rparr> None)
        \<lparr>page_url := ''https://add-cwv-check--bbird--aemsites.aem.page/about''\<rparr>) | Some i \<Rightarrow> Some i))
       (navigation_errors (navigation_waited
       \<lparr>nv_early = [(\<lparr>now = ''t1'', write_ok = True\<rparr>, PageError \<lparr>ev_text = ''boom'', ev_details = [], ev_fetched = None\<rparr>)],
        nv_flush = \<lparr>now = ''t2'', write_ok = True\<rparr>, nv_late = [],
        nv_goto1 = Raises ''https://add-cwv-check--bbird--aemsites.aem.page/about'',
        nv_reload2 = Completes, nv_goto3 = Completes, nv_goto4 = Completes,
        nv_goto5 = Completes\<rparr>
       ((start_session \<lparr>now = ''t0'', write_ok = True\<rparr> None)
        \<lparr>page_url := ''https://add-cwv-check--bbird--aemsites.aem.page/about''\<rparr>)))
     = [\<lparr>ne_error = ''boom'',
        ne_details = [(''navigation_context'', PBool True), (''navigation_url'', PStr ''https://add-cwv-check--bbird--aemsites.aem.page/about''),
                      (''element_that_caused_navigation'', PStr ''Unknown'')],
        ne_timestamp = ''t1''\<rparr>]"
    by code_simp
  have first: "nv_goto1 \<lparr>nv_early = [(\<lparr>now = ''t1'', write_ok = True\<rparr>, PageError \<lparr>ev_text = ''boom'', ev_details = [], ev_fetched = None\<rparr>)],
        nv_flush = \<lparr>now = ''t2'', write_ok = True\<rparr>, nv_late = [],
        nv_goto1 = Completes,
        nv_reload2 = Completes, nv_goto3 = Completes, nv_goto4 = Completes,
        nv_goto5 = Completes\<rparr> = Completes"
    by simp
  from navigation_ends_idle [OF off, where n = "\<lparr>nv_early = [(\<lparr>now = ''t1'', write_ok = True\<rparr>, PageError \<lparr>ev_text = ''boom'', ev_details = [], ev_fetched = None\<rparr>)],
        nv_flush = \<lparr>now = ''t2'', write_ok = True\<rparr>, nv_late = [],
        nv_goto1 = Raises ''https://add-cwv-check--bbird--aemsites.aem.page/about'',
        nv_reload2 = Completes, nv_goto3 = Completes, nv_goto4 = Completes,
        nv_goto5 = Completes\<rparr>" and info = None and st = "((start_session \<lparr>now = ''t0'', write_ok = True\<rparr> None)
        \<lparr>page_url := ''https://add-cwv-check--bbird--aemsites.aem.page/about''\<rparr>)"]
       navigation_ends_idle [OF off, where n = "\<lparr>nv_early = [(\<lparr>now = ''t1'', write_ok = True\<rparr>, PageError \<lparr>ev_text = ''boom'', ev_details = [], ev_fetched = None\<rparr>)],
        nv_flush = \<lparr>now = ''t2'', write_ok = True\<rparr>, nv_late = [],
        nv_goto1 = Completes,
        nv_reload2 = Completes, nv_goto3 = Completes, nv_goto4 = Completes,
        nv_goto5 = Completes\<rparr>" and info = None and st = "((start_session \<lparr>now = ''t0'', write_ok = True\<rparr> None)
        \<lparr>page_url := ''https://add-cwv-check--bbird--aemsites.aem.page/about''\<rparr>)"]
       off ok away buffered stamped first
  show ?thesis by blast
qed

section \<open>The context window\<close>

lemma foldl_append_concat: "foldl (\<lambda>acc i. acc @ f i) a xs = a @ concat (map f xs)"
  by (induction xs arbitrary: a) simp_all

lemma upto_shift: "map (\<lambda>i. i + c) [a..b] = [a + c..b + c]"
proof (induction a b rule: upto.induct)
  case (1 i j)
  show ?case
  proof (cases "i \<le> j")
    case True
    then have "[i..j] = i # [i + 1..j]" "[i + c..j + c] = (i + c) # [i + c + 1..j + c]"
      by (simp_all add: upto_rec1)
    with 1 [OF True] show ?thesis
      by (simp add: add.commute add.left_commute)
  next
    case False
    then show ?thesis by simp
  qed
qed

lemma context_string_spec: "context_string lines ln = spec_context lines ln"
proof -
  let ?s = "max 0 (ln - 31)" and ?e = "min (int (length lines) - 1) (ln + 29)"
  have "context_line lines ln i = spec_line lines ln (i + 1)" if "i \<in> set [?s..?e]" for i
    using that by (auto simp: context_line_def spec_line_def Let_def)
  then have "map (context_line lines ln) [?s..?e] = map (\<lambda>i. spec_line lines ln (i + 1)) [?s..?e]"
    by (intro map_cong) simp_all
  also have "\<dots> = map (spec_line lines ln) (map (\<lambda>i. i + 1) [?s..?e])"
    by simp
  also have "map (\<lambda>i. i + 1) [?s..?e] = spec_window (length lines) ln"
    unfolding upto_shift spec_window_def
    by (rule arg_cong2 [where f = upto]) auto
  finally show ?thesis
    by (simp add: context_string_def spec_context_def Let_def foldl_append_concat)
qed

lemma window_size: "length (spec_window n ln) \<le> 61"
  by (simp add: spec_window_def)

lemma window_full: "31 \<le> ln \<Longrightarrow> ln + 30 \<le> int n \<Longrightarrow> length (spec_window n ln) = 61"
  by (simp add: spec_window_def)

lemma window_has_error_line: "1 \<le> ln \<Longrightarrow> ln \<le> int n \<Longrightarrow> ln \<in> set (spec_window n ln)"
  by (simp add: spec_window_def)

text \<open>
  Claim C8, as amended. For an error with a numeric line, the context is built from the
  window of the specification: the lines from 30 before the error line to 30 after it,
  clipped at the start and the end of the file, at most 61 and exactly 61 where the file
  allows, each line once, the error line among them whenever the file has it, and that
  line alone behind the marker. What is returned is this text with the white space at
  its two ends stripped.
\<close>

theorem context_window:
  "extract_code_context source_code (PInt line_number)
     = Some (py_strip (spec_context (split_on (CHR 0x0A) source_code) line_number)) \<and>
   length (spec_window n line_number) \<le> 61 \<and>
   distinct (spec_window n line_number) \<and>
   (31 \<le> line_number \<and> line_number + 30 \<le> int n \<longrightarrow> length (spec_window n line_number) = 61) \<and>
   (1 \<le> line_number \<and> line_number \<le> int n \<longrightarrow> line_number \<in> set (spec_window n line_number)) \<and>
   (take 4 (spec_line lines line_number k) = ''>>> '') = (k = line_number)"
proof -
  have "extract_code_context source_code (PInt line_number)
     = Some (py_strip (spec_context (split_on (CHR 0x0A) source_code) line_number))"
    by (simp add: extract_code_context_def context_string_spec)
  moreover have "distinct (spec_window n line_number)"
    by (simp add: spec_window_def)
  moreover have "(take 4 (spec_line lines line_number k) = ''>>> '') = (k = line_number)"
    by (simp add: spec_line_def)
  ultimately show ?thesis
    using window_size window_full window_has_error_line by blast
qed

text \<open>
  The claim as stated fails where the window begins or ends with a blank line: in a file
  of three lines whose first line is empty, with the error in line 2, the window has
  three lines and the context returned has two.
\<close>

theorem blank_edge_is_stripped:
  "extract_code_context [CHR 0x0A, CHR ''x'', CHR 0x0A, CHR ''y''] (PInt 2)
     = Some (''>>> x'' @ [CHR 0x0A] @ ''    y'') \<and>
   spec_context (split_on (CHR 0x0A) [CHR 0x0A, CHR ''x'', CHR 0x0A, CHR ''y'']) 2
     = ''    '' @ [CHR 0x0A] @ ''>>> x'' @ [CHR 0x0A] @ ''    y'' @ [CHR 0x0A] \<and>
   length (spec_window (length (split_on (CHR 0x0A) [CHR 0x0A, CHR ''x'', CHR 0x0A, CHR ''y''])) 2) = 3 \<and>
   length (split_on (CHR 0x0A)
     (the (extract_code_context [CHR 0x0A, CHR ''x'', CHR 0x0A, CHR ''y''] (PInt 2)))) = 2"
  by code_simp

theorem context_window_witness:
  "extract_code_context ''var a;'' (PInt 31)
     = Some (py_strip (spec_context (split_on (CHR 0x0A) ''var a;'') 31)) \<and>
   (31::int) \<le> 31 \<and> (31::int) + 30 \<le> int 61 \<and> length (spec_window 61 31) = 61 \<and>
   (1::int) \<le> 31 \<and> (31::int) \<le> int 61 \<and> 31 \<in> set (spec_window 61 31)"
proof -
  have a: "(31::int) \<le> 31 \<and> (31::int) + 30 \<le> int 61"
    and b: "(1::int) \<le> 31 \<and> (31::int) \<le> int 61"
    by simp_all
  from context_window [where source_code = "''var a;''" and line_number = 31 and n = 61] a b
  show ?thesis by blast
qed

section \<open>The exploration stops\<close>

lemma rme_facts:
  "recursive_monkey_exploration env a ex = (why, ex') \<Longrightarrow>
   \<exists>k. actions_performed ex' = actions_performed ex + k \<and>
       length (interactions ex') = length (interactions ex) + k \<and>
       (a \<le> MAX_ACTIONS \<longrightarrow> a + k \<le> MAX_ACTIONS) \<and>
       (why = MaxActionsReached \<longrightarrow> MAX_ACTIONS \<le> a + k) \<and>
       (why = NoElementsFound \<or> why = AllVisited \<longrightarrow>
          unvisited (visited_selectors ex') (ex_elements (env (a + k))) = [])"
proof (induction env a ex arbitrary: why ex' rule: recursive_monkey_exploration.induct)
  case (1 env a ex)
  show ?case
  proof (cases "a \<ge> MAX_ACTIONS")
    case True
    with "1.prems" show ?thesis
      by (simp add: recursive_monkey_exploration.simps)
  next
    case False
    note small = this
    show ?thesis
    proof (cases "ex_elements (env a) = []")
      case True
      with small "1.prems" show ?thesis
        by (auto simp: recursive_monkey_exploration.simps [of env a ex] unvisited_def)
    next
      case False
      note some = this
      show ?thesis
      proof (cases "unvisited (visited_selectors ex) (ex_elements (env a)) = []")
        case True
        with small some "1.prems" show ?thesis
          by (auto simp: recursive_monkey_exploration.simps [of env a ex] Let_def)
      next
        case False
        let ?u = "unvisited (visited_selectors ex) (ex_elements (env a))"
        let ?p = "?u ! (ex_choice (env a) mod length ?u)"
        let ?ex1 = "ex\<lparr>visited_selectors := insert (snd ?p) (visited_selectors ex),
                       actions_performed := actions_performed ex + 1,
                       interactions := interactions ex @ [fst ?p]\<rparr>"
        have rec: "recursive_monkey_exploration env (a + 1) ?ex1 = (why, ex')"
          using small some False "1.prems"
          by (simp add: recursive_monkey_exploration.simps [of env a ex] Let_def)
        from "1.IH" [OF small refl some refl False refl rec]
        obtain k where k: "actions_performed ex' = actions_performed ?ex1 + k"
          "length (interactions ex') = length (interactions ?ex1) + k"
          "a + 1 \<le> MAX_ACTIONS \<longrightarrow> a + 1 + k \<le> MAX_ACTIONS"
          "why = MaxActionsReached \<longrightarrow> MAX_ACTIONS \<le> a + 1 + k"
          "why = NoElementsFound \<or> why = AllVisited \<longrightarrow>
             unvisited (visited_selectors ex') (ex_elements (env (a + 1 + k))) = []"
          by blast
        have "a + 1 \<le> MAX_ACTIONS" using small by simp
        with k show ?thesis
          by (intro exI [of _ "k + 1"]) (simp add: add.commute add.left_commute)
      qed
    qed
  qed
qed

text \<open>
  Claim C7. The exploration is a total function: it returns for every page behaviour and
  every run of random choices. It hands at most \<open>MAX_ACTIONS = 50\<close> elements to the
  interaction routine, one per step, and it returns either because the ceiling is reached,
  with exactly 50 actions performed, or because no unvisited element is left (no element
  at all, or all visited) at the step where it stops.
\<close>

theorem exploration_is_bounded:
  "MAX_ACTIONS = 50 \<and>
   actions_performed (snd (recursive_monkey_exploration env 0
      \<lparr>visited_selectors = V, actions_performed = 0, interactions = []\<rparr>)) \<le> MAX_ACTIONS \<and>
   length (interactions (snd (recursive_monkey_exploration env 0
      \<lparr>visited_selectors = V, actions_performed = 0, interactions = []\<rparr>)))
     = actions_performed (snd (recursive_monkey_exploration env 0
      \<lparr>visited_selectors = V, actions_performed = 0, interactions = []\<rparr>)) \<and>
   (fst (recursive_monkey_exploration env 0
      \<lparr>visited_selectors = V, actions_performed = 0, interactions = []\<rparr>) = MaxActionsReached \<and>
    actions_performed (snd (recursive_monkey_exploration env 0
      \<lparr>visited_selectors = V, actions_performed = 0, interactions = []\<rparr>)) = MAX_ACTIONS \<or>
    (fst (recursive_monkey_exploration env 0
      \<lparr>visited_selectors = V, actions_performed = 0, interactions = []\<rparr>) = NoElementsFound \<or>
     fst (recursive_monkey_exploration env 0
      \<lparr>visited_selectors = V, actions_performed = 0, interactions = []\<rparr>) = AllVisited) \<and>
    unvisited
      (visited_selectors (snd (recursive_monkey_exploration env 0
         \<lparr>visited_selectors = V, actions_performed = 0, interactions = []\<rparr>)))
      (ex_elements (env (actions_performed (snd (recursive_monkey_exploration env 0
         \<lparr>visited_selectors = V, actions_performed = 0, interactions = []\<rparr>))))) = [])"
proof -
  let ?ex0 = "\<lparr>visited_selectors = V, actions_performed = 0, interactions = []\<rparr>"
  obtain why ex' where r: "recursive_monkey_exploration env 0 ?ex0 = (why, ex')"
    by (cases "recursive_monkey_exploration env 0 ?ex0") auto
  from rme_facts [OF r] obtain k where k:
    "actions_performed ex' = k" "length (interactions ex') = k" "k \<le> MAX_ACTIONS"
    "why = MaxActionsReached \<longrightarrow> MAX_ACTIONS \<le> k"
    "why = NoElementsFound \<or> why = AllVisited \<longrightarrow>
       unvisited (visited_selectors ex') (ex_elements (env k)) = []"
    by auto
  have "why = MaxActionsReached \<or> why = NoElementsFound \<or> why = AllVisited"
    by (cases why) auto
  with k show ?thesis
    unfolding r by (auto simp: MAX_ACTIONS_def)
qed

theorem exploration_is_bounded_witness:
  "fst (recursive_monkey_exploration single_link_page 0
      \<lparr>visited_selectors = {}, actions_performed = 0, interactions = []\<rparr>) = AllVisited \<and>
   interactions (snd (recursive_monkey_exploration single_link_page 0
      \<lparr>visited_selectors = {}, actions_performed = 0, interactions = []\<rparr>)) = [1] \<and>
   actions_performed (snd (recursive_monkey_exploration single_link_page 0
      \<lparr>visited_selectors = {}, actions_performed = 0, interactions = []\<rparr>)) \<le> MAX_ACTIONS"
proof -
  have "fst (recursive_monkey_exploration single_link_page 0
      \<lparr>visited_selectors = {}, actions_performed = 0, interactions = []\<rparr>) = AllVisited \<and>
   interactions (snd (recursive_monkey_exploration single_link_page 0
      \<lparr>visited_selectors = {}, actions_performed = 0, interactions = []\<rparr>)) = [1]"
    by code_simp
  with exploration_is_bounded [of single_link_page "{}"] show ?thesis
    by blast
qed

section \<open>The sweep and external links\<close>

text \<open>
  An element all of whose entries in the list of discovered elements are marked external
  is counted in that list and never clicked.
\<close>

lemma sweep_one_skips_external:
  "ei_is_external info \<Longrightarrow> snd (sweep_one t acc info) = snd acc"
  by (simp add: sweep_one_def Let_def)

lemma sweep_one_calls:
  "snd (sweep_one t acc info) = snd acc \<or>
   snd (sweep_one t acc info) = snd acc @ [el_handle (ei_element info)]"
  by (simp add: sweep_one_def Let_def)

lemma sweep_external_not_clicked:
  assumes "\<And>info. info \<in> set infos \<Longrightarrow> el_handle (ei_element info) = h \<Longrightarrow> ei_is_external info"
    and "h \<notin> set (snd acc)"
  shows "h \<notin> set (snd (foldl (sweep_one t) acc infos))"
  using assms
proof (induction infos arbitrary: acc)
  case Nil
  then show ?case by simp
next
  case (Cons info infos)
  have "h \<notin> set (snd (sweep_one t acc info))"
  proof (cases "el_handle (ei_element info) = h")
    case True
    then have "ei_is_external info" using Cons.prems(1) by simp
    then show ?thesis using Cons.prems(2) by (simp add: sweep_one_skips_external)
  next
    case False
    then show ?thesis using Cons.prems(2) sweep_one_calls [of t acc info] by auto
  qed
  with Cons show ?case by simp
qed

lemma discover_one_infos:
  "info \<in> set (snd (discover_one d acc el)) \<Longrightarrow>
   info \<in> set (snd acc) \<or>
   (ei_element info = el \<and> el_tag el = Some (ei_tag_name info) \<and>
    ei_is_external info =
      (ei_tag_name info = ''a'' \<and> (\<exists>href. el_href el = Some href \<and> is_external_link href d)))"
  by (auto simp: discover_one_def split: option.splits bool.splits if_splits)

lemma external_counted_not_clicked:
  assumes "\<And>info. info \<in> set (snd (discover_clickable (extract_domain url) queries)) \<Longrightarrow>
             el_handle (ei_element info) = h \<Longrightarrow> ei_is_external info"
  shows "h \<notin> set (click_calls (click_all_links_and_buttons url queries))"
    and "total_elements_found (click_all_links_and_buttons url queries)
           = length (snd (discover_clickable (extract_domain url) queries))"
  using sweep_external_not_clicked
          [where acc = "({}, [])" and infos = "snd (discover_clickable (extract_domain url) queries)"
             and h = h and t = "fst (discover_clickable (extract_domain url) queries)"]
        assms
  by (simp_all add: click_all_links_and_buttons_def Let_def)

section \<open>The sweep and links that open a new tab\<close>

text \<open>
  Claim C6 at a failing input. The page has a link to a page of the same site with
  \<open>target="_blank"\<close>, matched by the first selector, and a button, matched by a later
  one; both are counted, and neither is external. The button is the element discovered
  last, and the link is clicked although it opens a new tab. Were the link matched once
  more by a selector after the button's, it would be the element discovered last, and it
  would be skipped: the test reads the tag of the element discovered last.
\<close>

theorem new_tab_link_is_clicked:
  "click_calls (click_all_links_and_buttons BASE_URL
     [Some [\<lparr>el_handle = 1, el_visible = Some True, el_tag = Some ''a'', el_text = Some ''Docs'',
             el_href = Some ''https://add-cwv-check--bbird--aemsites.aem.page/docs'',
             el_path = ''a.docs'', el_target = Some ''_blank'', el_scroll = True,
             el_enabled = Some True\<rparr>],
      Some [\<lparr>el_handle = 2, el_visible = Some True, el_tag = Some ''button'',
             el_text = Some ''Go'', el_href = None, el_path = ''button#go'',
             el_target = Some [], el_scroll = True, el_enabled = Some True\<rparr>]]) = [1, 2] \<and>
   total_elements_found (click_all_links_and_buttons BASE_URL
     [Some [\<lparr>el_handle = 1, el_visible = Some True, el_tag = Some ''a'', el_text = Some ''Docs'',
             el_href = Some ''https://add-cwv-check--bbird--aemsites.aem.page/docs'',
             el_path = ''a.docs'', el_target = Some ''_blank'', el_scroll = True,
             el_enabled = Some True\<rparr>],
      Some [\<lparr>el_handle = 2, el_visible = Some True, el_tag = Some ''button'',
             el_text = Some ''Go'', el_href = None, el_path = ''button#go'',
             el_target = Some [], el_scroll = True, el_enabled = Some True\<rparr>]]) = 2 \<and>
   click_calls (click_all_links_and_buttons BASE_URL
     [Some [\<lparr>el_handle = 1, el_visible = Some True, el_tag = Some ''a'', el_text = Some ''Docs'',
             el_href = Some ''https://add-cwv-check--bbird--aemsites.aem.page/docs'',
             el_path = ''a.docs'', el_target = Some ''_blank'', el_scroll = True,
             el_enabled = Some True\<rparr>],
      Some [\<lparr>el_handle = 2, el_visible = Some True, el_tag = Some ''button'',
             el_text = Some ''Go'', el_href = None, el_path = ''button#go'',
             el_target = Some [], el_scroll = True, el_enabled = Some True\<rparr>],
      Some [\<lparr>el_handle = 1, el_visible = Some True, el_tag = Some ''a'', el_text = Some ''Docs'',
             el_href = Some ''https://add-cwv-check--bbird--aemsites.aem.page/docs'',
             el_path = ''a.docs'', el_target = Some ''_blank'', el_scroll = True,
             el_enabled = Some True\<rparr>]]) = [2]"
  by code_simp

section \<open>The suggestions that are clicked\<close>

text \<open>
  Whatever the driver does, the suggestions clicked are an initial part of the first
  snapshot.
\<close>

lemma clicks_from_snapshot:
  "\<exists>k. [h. ClickSuggestion h \<leftarrow> click_suggestions env n j xs] = take k xs"
proof (induction xs arbitrary: j)
  case Nil
  show ?case by simp
next
  case (Cons x xs)
  from Cons [of "j + 1"] obtain k where
    k: "[h. ClickSuggestion h \<leftarrow> click_suggestions env n (j + 1) xs] = take k xs"
    by blast
  have "[h. ClickSuggestion h \<leftarrow> click_suggestions env n j (x # xs)] = take 0 (x # xs) \<or>
        [h. ClickSuggestion h \<leftarrow> click_suggestions env n j (x # xs)] = take 1 (x # xs) \<or>
        [h. ClickSuggestion h \<leftarrow> click_suggestions env n j (x # xs)] = take (Suc k) (x # xs)"
    using k by (simp add: Let_def)
  then show ?case by blast
qed

text \<open>
  Claim C9 at a failing input. The field shows the suggestions 10, 11 and 12; each time
  the probe is typed again the overlay holds new elements. When all calls complete, three
  clicks are made, with a new probe after the first and the second, but the second and
  third click go to the handles 11 and 12 of the first snapshot, not to the handles 21
  and 32 that the new queries returned. When the click on a handle of the first snapshot
  raises once its element is gone, the loop ends at the second click.
\<close>

theorem clicks_use_first_snapshot:
  "test_dropdown replaced_suggestions [10, 11, 12]
     = [ClickSuggestion 10, Reprobe, ClickSuggestion 11, Reprobe, ClickSuggestion 12] \<and>
   sg_new_dropdown (replaced_suggestions 0) ! 1 = 21 \<and>
   sg_new_dropdown (replaced_suggestions 1) ! 2 = 32 \<and>
   test_dropdown detached_suggestions [10, 11, 12]
     = [ClickSuggestion 10, Reprobe, ClickSuggestion 11]"
  by code_simp

end
